theory Spec2Isabelle
  imports Complex_Main
begin

section \<open>JavaScript values\<close>

text \<open>
  The values the bridge handles at run time: what \<open>JSON.parse\<close> returns, what is put
  into a request body, and the members a plain object literal inherits from
  \<open>Object.prototype\<close> (\<open>JBuiltin\<close>, named by the key that reaches it). The value
  \<open>undefined\<close> is \<open>None\<close> of \<open>jsval option\<close>. A finite JavaScript number is the
  rational it denotes; \<open>NaN\<close> is \<open>None\<close> of \<open>rat option\<close>.
\<close>

datatype jsval =
    JNull
  | JBool bool
  | JNum rat
  | JStr string
  | JArr "jsval list"
  | JObj "(string \<times> jsval) list"
  | JBuiltin string

text \<open>Truthiness, as \<open>if (v)\<close>, \<open>!v\<close> and \<open>v || w\<close> read it.\<close>

fun truthy :: "jsval \<Rightarrow> bool" where
  "truthy JNull = False"
| "truthy (JBool b) = b"
| "truthy (JNum n) = (n \<noteq> 0)"
| "truthy (JStr s) = (s \<noteq> [])"
| "truthy (JArr vs) = True"
| "truthy (JObj kvs) = True"
| "truthy (JBuiltin k) = True"

fun truthy_opt :: "jsval option \<Rightarrow> bool" where
  "truthy_opt None = False"
| "truthy_opt (Some v) = truthy v"

text \<open>\<open>a || b\<close> on possibly undefined values.\<close>

definition js_or :: "jsval option \<Rightarrow> jsval option \<Rightarrow> jsval option" where
  "js_or a b = (if truthy_opt a then a else b)"

text \<open>
  \<open>v?.k\<close> for the fixed keys the bridge reads from parsed responses
  (\<open>ReturnValue\<close>, \<open>Responses\<close>, \<open>RequestId\<close>, \<open>StatusCode\<close>, \<open>status\<close>): an object
  yields its own property, every other value (and \<open>null\<close>, through \<open>?.\<close>) yields
  \<open>undefined\<close>. None of these keys is a member of a built-in prototype.
\<close>

fun js_get :: "jsval \<Rightarrow> string \<Rightarrow> jsval option" where
  "js_get (JObj kvs) k = map_of kvs k"
| "js_get v k = None"

fun js_get_opt :: "jsval option \<Rightarrow> string \<Rightarrow> jsval option" where
  "js_get_opt None k = None"
| "js_get_opt (Some v) k = js_get v k"

text \<open>A property whose value is \<open>undefined\<close> is left out of the serialised body.\<close>

fun own_prop :: "string \<Rightarrow> jsval option \<Rightarrow> (string \<times> jsval) list" where
  "own_prop k None = []"
| "own_prop k (Some v) = [(k, v)]"

text \<open>
  Modelled from ECMAScript, which the repository relies on wherever a value is put
  into a template literal or compared with \<open>>=\<close> and \<open><\<close>: the conversion of a
  value to a primitive throws a \<open>TypeError\<close> exactly when no \<open>toString\<close> and no
  \<open>valueOf\<close> it can call yields a primitive. For a parsed object that is the case
  when it has a \<open>toString\<close> member of its own (no JSON value is callable, and the
  inherited \<open>valueOf\<close> returns the object itself); an array is joined from its
  elements, so it throws when one of them does; every other value converts.
\<close>

fun unconvertible :: "jsval \<Rightarrow> bool" where
  "unconvertible (JObj kvs) = (map_of kvs ''toString'' \<noteq> None)"
| "unconvertible (JArr vs) = list_ex unconvertible vs"
| "unconvertible v = False"

section \<open>The RPC client\<close>

text \<open>
  One HTTP request as \<open>rcFetch\<close> hands it to \<open>fetch\<close>: the URL, the verb and the value
  that is serialised as the body (\<open>None\<close>: no body and no content-type header).
\<close>

record request =
  url :: string
  verb :: string
  content :: "jsval option"

text \<open>
  What \<open>await fetch(...)\<close> followed by \<open>await res.text()\<close> can do: deliver a response
  (its status and body text), reject with an \<open>AbortError\<close> (the 10 second timer fired),
  or reject with any other error (its message).
\<close>

datatype fetch_result =
    Http_response int string
  | Abort_error
  | Fetch_error string

text \<open>
  The surroundings of the bridge. The host is any function from the requests issued so
  far and the current request to a \<open>fetch_result\<close>; \<open>JSON_parse\<close> returns \<open>None\<close>
  where \<open>JSON.parse\<close> throws; \<open>ToNumber\<close> and \<open>ToString\<close> are the language's
  conversions of strings, arrays and objects (used by \<open>>=\<close>, \<open><\<close> and template
  literals) to the number and the string they yield when they do not throw;
  \<open>baseUrl\<close> is \<open>http://host:port\<close> as read from the process environment.
\<close>

record env =
  baseUrl :: string
  fetch :: "request list \<Rightarrow> request \<Rightarrow> fetch_result"
  JSON_parse :: "string \<Rightarrow> jsval option"
  ToNumber :: "jsval \<Rightarrow> rat option"
  ToString :: "jsval \<Rightarrow> string"

text \<open>The envelope \<open>RcResponse\<close>.\<close>

record RcResponse =
  ok :: bool
  status :: int
  data :: jsval

text \<open>
  The errors thrown inside a handler:
  \<open>Timed_out url\<close> is \<open>new Error("Request to <url> timed out after 10s")\<close>,
  \<open>Connect_failed url msg\<close> is \<open>new Error("Failed to connect to UE5 editor at <url>: <msg>")\<close>,
  \<open>Null_property k\<close> is the \<open>TypeError\<close> of reading property \<open>k\<close> of \<open>null\<close>,
  \<open>Not_primitive\<close> is the \<open>TypeError\<close> of converting a value that has no primitive.
\<close>

datatype exn =
    Timed_out string
  | Connect_failed string string
  | Null_property string
  | Not_primitive

text \<open>
  An awaited computation: it takes the list of requests issued so far and returns a
  value or a thrown error, with the list extended by the requests it issued.
\<close>

type_synonym 'a io = "request list \<Rightarrow> (exn + 'a) \<times> request list"

definition io_return :: "'a \<Rightarrow> 'a io" where
  "io_return a tr = (Inr a, tr)"

definition io_bind :: "'a io \<Rightarrow> ('a \<Rightarrow> 'b io) \<Rightarrow> 'b io" where
  "io_bind m f tr = (case m tr of (Inl e, tr') \<Rightarrow> (Inl e, tr') | (Inr a, tr') \<Rightarrow> f a tr')"

text \<open>A computation that issues no request: it returns or throws at once.\<close>

definition io_of :: "exn + 'a \<Rightarrow> 'a io" where
  "io_of r tr = (r, tr)"

text \<open>
  A template literal's rendering of a value, \<open>${v}\<close>: it throws where the value has
  no primitive; otherwise a string is itself, \<open>null\<close>, \<open>true\<close> and \<open>false\<close> are
  their names, and any other value is the string the language converts it to.
\<close>

definition rendered :: "env \<Rightarrow> jsval \<Rightarrow> string" where
  "rendered e v =
     (case v of
        JStr s \<Rightarrow> s
      | JNull \<Rightarrow> ''null''
      | JBool b \<Rightarrow> (if b then ''true'' else ''false'')
      | _ \<Rightarrow> ToString e v)"

definition template :: "env \<Rightarrow> jsval \<Rightarrow> exn + string" where
  "template e v = (if unconvertible v then Inl Not_primitive else Inr (rendered e v))"

text \<open>
  Modelled from the Fetch standard, which the repository relies on for \<open>res.ok\<close>:
  a response is ok when its status is in the range 200 to 299 inclusive.
\<close>

definition Response_ok :: "int \<Rightarrow> bool" where
  "Response_ok st = (200 \<le> st \<and> st \<le> 299)"

definition rcFetch :: "env \<Rightarrow> string \<Rightarrow> string \<Rightarrow> jsval option \<Rightarrow> RcResponse io" where
  "rcFetch e path vb body tr =
     (let u = baseUrl e @ path;
          req = \<lparr>url = u, verb = vb, content = (if truthy_opt body then body else None)\<rparr>
      in ((case fetch e tr req of
             Http_response st txt \<Rightarrow>
               Inr \<lparr>ok = Response_ok st, status = st,
                    data = (case JSON_parse e txt of Some v \<Rightarrow> v | None \<Rightarrow> JStr txt)\<rparr>
           | Abort_error \<Rightarrow> Inl (Timed_out u)
           | Fetch_error msg \<Rightarrow> Inl (Connect_failed u msg)),
          tr @ [req]))"

text \<open>
  \<open>rcCall(objectPath, functionName, parameters)\<close>: the body of an object-function
  invocation, with \<open>parameters || {}\<close> and \<open>generateTransaction: true\<close>.
\<close>

definition call_body :: "jsval option \<Rightarrow> jsval option \<Rightarrow> jsval option \<Rightarrow> jsval" where
  "call_body obj fn ps =
     JObj (own_prop ''objectPath'' obj @ own_prop ''functionName'' fn @
           [(''parameters'', (case js_or ps (Some (JObj [])) of Some p \<Rightarrow> p | None \<Rightarrow> JObj [])),
            (''generateTransaction'', JBool True)])"

definition rcCall :: "env \<Rightarrow> jsval option \<Rightarrow> jsval option \<Rightarrow> jsval option \<Rightarrow> RcResponse io" where
  "rcCall e obj fn ps =
     rcFetch e ''/remote/object/call'' ''PUT'' (Some (call_body obj fn ps))"

text \<open>The request \<open>rcCall\<close> issues, for stating which calls were made.\<close>

definition call_request :: "env \<Rightarrow> jsval option \<Rightarrow> jsval option \<Rightarrow> jsval option \<Rightarrow> request" where
  "call_request e obj fn ps =
     \<lparr>url = baseUrl e @ ''/remote/object/call'', verb = ''PUT'',
      content = Some (call_body obj fn ps)\<rparr>"

section \<open>Lookup tables and the name resolver\<close>

text \<open>
  The tables are object literals, so \<open>TABLE[key]\<close> finds the table's own entries and,
  for any other key, whatever \<open>Object.prototype\<close> supplies under that name.
  Modelled from ECMAScript, which the repository relies on for property lookup: the
  property names every object literal inherits.
\<close>

definition Object_prototype_keys :: "string list" where
  "Object_prototype_keys =
     [''constructor'', ''__proto__'', ''hasOwnProperty'', ''isPrototypeOf'',
      ''propertyIsEnumerable'', ''toLocaleString'', ''toString'', ''valueOf'',
      ''__defineGetter__'', ''__defineSetter__'', ''__lookupGetter__'', ''__lookupSetter__'']"

datatype 'a member = Own 'a | Inherited string | Absent

definition member_of :: "(string \<times> 'a) list \<Rightarrow> string \<Rightarrow> 'a member" where
  "member_of tbl k =
     (case map_of tbl k of
        Some v \<Rightarrow> Own v
      | None \<Rightarrow> if k \<in> set Object_prototype_keys then Inherited k else Absent)"

definition ENGINE_MESHES :: "(string \<times> string) list" where
  "ENGINE_MESHES =
     [(''Cube'', ''/Engine/BasicShapes/Cube.Cube''),
      (''Sphere'', ''/Engine/BasicShapes/Sphere.Sphere''),
      (''Cylinder'', ''/Engine/BasicShapes/Cylinder.Cylinder''),
      (''Cone'', ''/Engine/BasicShapes/Cone.Cone''),
      (''Plane'', ''/Engine/BasicShapes/Plane.Plane'')]"

definition ACTOR_CLASSES :: "(string \<times> string) list" where
  "ACTOR_CLASSES =
     [(''StaticMeshActor'', ''/Script/Engine.StaticMeshActor''),
      (''PointLight'', ''/Script/Engine.PointLight''),
      (''SpotLight'', ''/Script/Engine.SpotLight''),
      (''DirectionalLight'', ''/Script/Engine.DirectionalLight''),
      (''CameraActor'', ''/Script/Engine.CameraActor''),
      (''PlayerStart'', ''/Script/Engine.PlayerStart''),
      (''TriggerBox'', ''/Script/Engine.TriggerBox''),
      (''TriggerSphere'', ''/Script/Engine.TriggerSphere''),
      (''BlockingVolume'', ''/Script/Engine.BlockingVolume''),
      (''ExponentialHeightFog'', ''/Script/Engine.ExponentialHeightFog''),
      (''SkyLight'', ''/Script/Engine.SkyLight''),
      (''DecalActor'', ''/Script/Engine.DecalActor''),
      (''Note'', ''/Script/Engine.Note''),
      (''TextRenderActor'', ''/Script/Engine.TextRenderActor'')]"

definition LIGHT_CLASSES :: "(string \<times> string) list" where
  "LIGHT_CLASSES =
     [(''PointLight'', ''/Script/Engine.PointLight''),
      (''SpotLight'', ''/Script/Engine.SpotLight''),
      (''DirectionalLight'', ''/Script/Engine.DirectionalLight''),
      (''RectLight'', ''/Script/Engine.RectLight''),
      (''SkyLight'', ''/Script/Engine.SkyLight'')]"

text \<open>
  The resolver is the expression \<open>TABLE[token] || token\<close>, written
  \<open>ACTOR_CLASSES[actor_class] || actor_class\<close> and \<open>ENGINE_MESHES[mesh] || mesh\<close> in
  the handlers.
\<close>

definition resolve :: "(string \<times> string) list \<Rightarrow> string \<Rightarrow> jsval" where
  "resolve tbl token =
     (case member_of tbl token of
        Own p \<Rightarrow> if p \<noteq> [] then JStr p else JStr token
      | Inherited k \<Rightarrow> JBuiltin k
      | Absent \<Rightarrow> JStr token)"

section \<open>Tool results\<close>

text \<open>
  The entries pushed on \<open>steps\<close>, one constructor per message template. In
  \<open>ue5_spawn_actor\<close>: \<open>Spawned c a\<close> is "Spawned c -> a", \<open>Set_mesh m\<close> is
  "Set mesh: m", \<open>Set_mobility\<close> is "Set mobility: Movable", \<open>Enabled_physics\<close> is
  "Enabled physics simulation", \<open>Enabled_gravity\<close> is "Enabled gravity",
  \<open>Set_label l\<close> is "Set label: l", \<open>Set_rotation\<close> and \<open>Set_scale\<close> likewise, and
  \<open>Warning k st\<close> is "Warning: Failed to ... (st)" for the step \<open>k\<close> (never
  \<open>Primary\<close>: a failed primary call ends the handler with an error result).
  In \<open>ue5_spawn_light\<close> (\<open>light_step\<close>): "Spawned t -> a", "Intensity: i", "Color: (r, g, b)",
  "Attenuation radius: r", "Inner cone: a", "Outer cone: a", "Cast shadows: b",
  "Rotation: ...", "Label: l"; that handler has no warning message.
\<close>

datatype step_kind = Primary | Mesh | Mobility | Physics | Gravity | Label | Rotation | Scale

datatype step =
    Spawned jsval jsval
  | Set_mesh jsval
  | Set_mobility
  | Enabled_physics
  | Enabled_gravity
  | Set_label string
  | Set_rotation rat rat rat
  | Set_scale rat rat rat
  | Warning step_kind int

datatype light_step =
    Spawned_light string jsval
  | Intensity rat
  | Color rat rat rat
  | Attenuation_radius rat
  | Inner_cone rat
  | Outer_cone rat
  | Cast_shadows bool
  | Light_rotation rat rat rat
  | Light_label string

text \<open>
  One element of \<open>operations\<close>; \<open>op_type\<close> is the field \<open>type\<close> ("call" or
  "property") and \<open>op_parameters\<close> the field \<open>parameters\<close>.
\<close>

datatype op_type = Call | Property

record operation =
  op_type :: op_type
  object_path :: string
  function_name :: "string option"
  property_name :: "string option"
  op_parameters :: "jsval option"
  property_value :: "jsval option"

text \<open>
  One line of the batch report: "n. [OK] ..." or "n. [FAIL] ...", the operation it
  describes and the status printed after the dash.
\<close>

record verdict =
  line_number :: nat
  icon_ok :: bool
  described :: operation
  shown_status :: jsval

text \<open>
  What \<open>textResult\<close> carries: the spawn report (the path line and the step lines),
  the light report, "Executed: description" (\<open>None\<close> where the description read is
  \<open>undefined\<close>), and the batch report.
\<close>

datatype report =
    Actor_spawned jsval "step list"
  | Light_spawned jsval "light_step list"
  | Executed "string option"
  | Batch_results "verdict list"

text \<open>
  What \<open>errorResult\<close> carries: the message of a caught error, "X failed (HTTP st):
  data", "Spawn returned no actor path", "Unknown command: c", and the rejection of
  arguments that do not match a tool's input schema.
\<close>

datatype tool_error =
    Caught exn
  | Http_failed string int jsval
  | No_actor_path jsval
  | Unknown_command string
  | Invalid_arguments

datatype tool_result = textResult report | errorResult tool_error

definition try_catch :: "tool_result io \<Rightarrow> request list \<Rightarrow> tool_result \<times> request list" where
  "try_catch m tr =
     (case m tr of
        (Inl err, tr') \<Rightarrow> (errorResult (Caught err), tr')
      | (Inr r, tr') \<Rightarrow> (r, tr'))"

section \<open>The composite spawn: ue5_spawn_actor\<close>

record vec =
  vx :: rat
  vy :: rat
  vz :: rat

record rotator =
  pitch :: rat
  yaw :: rat
  roll :: rat

definition XYZ :: "rat \<Rightarrow> rat \<Rightarrow> rat \<Rightarrow> jsval" where
  "XYZ a b c = JObj [(''X'', JNum a), (''Y'', JNum b), (''Z'', JNum c)]"

definition EditorActorSubsystem :: string where
  "EditorActorSubsystem = ''/Script/UnrealEd.Default__EditorActorSubsystem''"

text \<open>
  The pattern of every configuration step of \<open>ue5_spawn_actor\<close>:
  \<open>const r = await rcCall(target, fn, params); if (r.ok) steps.push(done) else
  steps.push("Warning: ... (r.status)")\<close>. A log entry records the values its message
  shows; the values shown in these messages (numbers, the caller's strings, and the
  resolved mesh path, a string or an inherited member) all convert.
\<close>

definition configure ::
  "env \<Rightarrow> jsval \<Rightarrow> string \<Rightarrow> jsval \<Rightarrow> step \<Rightarrow> step_kind \<Rightarrow> step list \<Rightarrow> step list io" where
  "configure e target fn params done kind steps =
     io_bind (rcCall e (Some target) (Some (JStr fn)) (Some params))
       (\<lambda>res. io_return (steps @ [if ok res then done else Warning kind (status res)]))"

definition spawn_params :: "jsval \<Rightarrow> vec option \<Rightarrow> jsval" where
  "spawn_params classPath location =
     JObj [(''ActorClass'', classPath),
           (''Location'', (case location of
                            Some l \<Rightarrow> XYZ (vx l) (vy l) (vz l)
                          | None \<Rightarrow> XYZ 0 0 0))]"

definition mesh_step :: "env \<Rightarrow> jsval \<Rightarrow> string option \<Rightarrow> step list \<Rightarrow> step list io" where
  "mesh_step e actorPath mesh steps =
     (case mesh of
        None \<Rightarrow> io_return steps
      | Some m \<Rightarrow>
          if m = [] then io_return steps
          else
            (let meshPath = resolve ENGINE_MESHES m in
             io_bind (io_of (template e actorPath))
               (\<lambda>shown.
                  configure e (JStr (shown @ ''.StaticMeshComponent0'')) ''SetStaticMesh''
                    (JObj [(''NewMesh'', meshPath)]) (Set_mesh meshPath) Mesh steps)))"

definition physics_steps :: "env \<Rightarrow> jsval \<Rightarrow> bool \<Rightarrow> step list \<Rightarrow> step list io" where
  "physics_steps e actorPath simulate_physics steps =
     (if simulate_physics then
        io_bind (io_of (template e actorPath))
          (\<lambda>shown.
             (let meshComp = JStr (shown @ ''.StaticMeshComponent0'') in
              io_bind (configure e meshComp ''SetMobility'' (JObj [(''NewMobility'', JStr ''Movable'')])
                         Set_mobility Mobility steps)
                (\<lambda>steps1.
              io_bind (configure e meshComp ''SetSimulatePhysics'' (JObj [(''bSimulate'', JBool True)])
                         Enabled_physics Physics steps1)
                (\<lambda>steps2.
              configure e meshComp ''SetEnableGravity'' (JObj [(''bGravityEnabled'', JBool True)])
                Enabled_gravity Gravity steps2))))
      else io_return steps)"

definition label_step :: "env \<Rightarrow> jsval \<Rightarrow> string option \<Rightarrow> step list \<Rightarrow> step list io" where
  "label_step e actorPath label steps =
     (case label of
        None \<Rightarrow> io_return steps
      | Some l \<Rightarrow>
          if l = [] then io_return steps
          else configure e actorPath ''SetActorLabel'' (JObj [(''NewActorLabel'', JStr l)])
                 (Set_label l) Label steps)"

definition rotation_params :: "rotator \<Rightarrow> jsval" where
  "rotation_params r =
     JObj [(''NewRotation'',
             JObj [(''Pitch'', JNum (pitch r)), (''Yaw'', JNum (yaw r)), (''Roll'', JNum (roll r))]),
           (''bTeleportPhysics'', JBool True)]"

definition rotation_step :: "env \<Rightarrow> jsval \<Rightarrow> rotator option \<Rightarrow> step list \<Rightarrow> step list io" where
  "rotation_step e actorPath rotation steps =
     (case rotation of
        None \<Rightarrow> io_return steps
      | Some r \<Rightarrow>
          configure e actorPath ''K2_SetActorRotation'' (rotation_params r)
            (Set_rotation (pitch r) (yaw r) (roll r)) Rotation steps)"

definition scale_step :: "env \<Rightarrow> jsval \<Rightarrow> vec option \<Rightarrow> step list \<Rightarrow> step list io" where
  "scale_step e actorPath scale steps =
     (case scale of
        None \<Rightarrow> io_return steps
      | Some s \<Rightarrow>
          configure e actorPath ''SetActorScale3D''
            (JObj [(''NewScale3D'', XYZ (vx s) (vy s) (vz s))])
            (Set_scale (vx s) (vy s) (vz s)) Scale steps)"

text \<open>
  The primary call: \<open>rcCall(EditorActorSubsystem, "SpawnActorFromClass", {ActorClass,
  Location})\<close>.
\<close>

definition primary_call :: "env \<Rightarrow> jsval \<Rightarrow> vec option \<Rightarrow> RcResponse io" where
  "primary_call e classPath location =
     rcCall e (Some (JStr EditorActorSubsystem)) (Some (JStr ''SpawnActorFromClass''))
       (Some (spawn_params classPath location))"

text \<open>
  The handler, lines 226 to 331. The first log entry (line 252) and the path line
  (line 325) render \<open>classPath\<close> and \<open>actorPath\<close> in template literals, which throws
  for an identifier that has no primitive; the report records the values shown.
\<close>

definition ue5_spawn_actor ::
  "env \<Rightarrow> string \<Rightarrow> string option \<Rightarrow> string option \<Rightarrow> vec option \<Rightarrow> rotator option \<Rightarrow>
   vec option \<Rightarrow> bool \<Rightarrow> request list \<Rightarrow> tool_result \<times> request list" where
  "ue5_spawn_actor e actor_class mesh label location rotation scale simulate_physics =
     try_catch
      (let classPath = resolve ACTOR_CLASSES actor_class in
       io_bind (primary_call e classPath location)
         (\<lambda>spawnRes.
            if \<not> ok spawnRes then
              io_return (errorResult (Http_failed ''Spawn'' (status spawnRes) (data spawnRes)))
            else
              (case js_get (data spawnRes) ''ReturnValue'' of
                 None \<Rightarrow> io_return (errorResult (No_actor_path (data spawnRes)))
               | Some actorPath \<Rightarrow>
                   if \<not> truthy actorPath then
                     io_return (errorResult (No_actor_path (data spawnRes)))
                   else
                     io_bind (io_of (template e classPath))
                       (\<lambda>shownClass.
                     io_bind (io_of (template e actorPath))
                       (\<lambda>shownPath.
                     io_bind (mesh_step e actorPath mesh [Spawned classPath actorPath])
                       (\<lambda>steps1.
                     io_bind (physics_steps e actorPath simulate_physics steps1)
                       (\<lambda>steps2.
                     io_bind (label_step e actorPath label steps2)
                       (\<lambda>steps3.
                     io_bind (rotation_step e actorPath rotation steps3)
                       (\<lambda>steps4.
                     io_bind (scale_step e actorPath scale steps4)
                       (\<lambda>steps5.
                     io_bind (io_of (template e actorPath))
                       (\<lambda>shownPath'.
                     io_return (textResult (Actor_spawned actorPath steps5)))))))))))))"

text \<open>The request of the primary call, for stating which calls were made.\<close>

definition spawn_request :: "env \<Rightarrow> string \<Rightarrow> vec option \<Rightarrow> request" where
  "spawn_request e actor_class location =
     call_request e (Some (JStr EditorActorSubsystem)) (Some (JStr ''SpawnActorFromClass''))
       (Some (spawn_params (resolve ACTOR_CLASSES actor_class) location))"

section \<open>The light composite: ue5_spawn_light\<close>

record color =
  cr :: rat
  cg :: rat
  cb :: rat

text \<open>
  The two patterns of its steps: \<open>const r = await rcCall(...); if (r.ok)
  steps.push(done)\<close> with no else branch, and \<open>await rcCall(...); steps.push(done)\<close>
  with the result not looked at.
\<close>

definition push_if_ok ::
  "env \<Rightarrow> jsval \<Rightarrow> string \<Rightarrow> jsval \<Rightarrow> light_step \<Rightarrow> light_step list \<Rightarrow> light_step list io" where
  "push_if_ok e target fn params done steps =
     io_bind (rcCall e (Some target) (Some (JStr fn)) (Some params))
       (\<lambda>res. io_return (if ok res then steps @ [done] else steps))"

definition push_always ::
  "env \<Rightarrow> jsval \<Rightarrow> string \<Rightarrow> jsval \<Rightarrow> light_step \<Rightarrow> light_step list \<Rightarrow> light_step list io" where
  "push_always e target fn params done steps =
     io_bind (rcCall e (Some target) (Some (JStr fn)) (Some params))
       (\<lambda>res. io_return (steps @ [done]))"

definition light_spawn_params :: "string \<Rightarrow> vec option \<Rightarrow> jsval" where
  "light_spawn_params light_type location =
     (let classPath = (case member_of LIGHT_CLASSES light_type of
                         Own p \<Rightarrow> Some (JStr p)
                       | Inherited k \<Rightarrow> Some (JBuiltin k)
                       | Absent \<Rightarrow> None);
          loc = (case location of Some l \<Rightarrow> l | None \<Rightarrow> \<lparr>vx = 0, vy = 0, vz = 300\<rparr>)
      in JObj (own_prop ''ActorClass'' classPath @ [(''Location'', XYZ (vx loc) (vy loc) (vz loc))]))"

definition ue5_spawn_light ::
  "env \<Rightarrow> string \<Rightarrow> vec option \<Rightarrow> rotator option \<Rightarrow> string option \<Rightarrow> rat \<Rightarrow> color option \<Rightarrow>
   rat option \<Rightarrow> rat option \<Rightarrow> rat option \<Rightarrow> bool \<Rightarrow> request list \<Rightarrow> tool_result \<times> request list" where
  "ue5_spawn_light e light_type location rotation label intensity colour attenuation_radius
     inner_cone_angle outer_cone_angle cast_shadows =
     try_catch
      (io_bind (rcCall e (Some (JStr EditorActorSubsystem)) (Some (JStr ''SpawnActorFromClass''))
                  (Some (light_spawn_params light_type location)))
         (\<lambda>spawnRes.
            if \<not> ok spawnRes then
              io_return (errorResult (Http_failed ''Spawn light'' (status spawnRes) (data spawnRes)))
            else
              (case js_get (data spawnRes) ''ReturnValue'' of
                 None \<Rightarrow> io_return (errorResult (No_actor_path JNull))
               | Some actorPath \<Rightarrow>
                   if \<not> truthy actorPath then io_return (errorResult (No_actor_path JNull))
                   else
                     io_bind (io_of (template e actorPath))
                       (\<lambda>shown.
                     (let lightComp = JStr (shown @ ''.LightComponent0'') in
                      io_bind (push_if_ok e lightComp ''SetIntensity''
                                 (JObj [(''NewIntensity'', JNum intensity)]) (Intensity intensity)
                                 [Spawned_light light_type actorPath])
                        (\<lambda>steps1.
                      io_bind (case colour of
                                 None \<Rightarrow> io_return steps1
                               | Some c \<Rightarrow>
                                   push_if_ok e lightComp ''SetLightColor''
                                     (JObj [(''NewLightColor'',
                                              JObj [(''R'', JNum (cr c)), (''G'', JNum (cg c)),
                                                    (''B'', JNum (cb c)), (''A'', JNum 255)])])
                                     (Color (cr c) (cg c) (cb c)) steps1)
                        (\<lambda>steps2.
                      io_bind (case attenuation_radius of
                                 None \<Rightarrow> io_return steps2
                               | Some r \<Rightarrow>
                                   if r \<noteq> 0 \<and> light_type \<noteq> ''DirectionalLight''
                                        \<and> light_type \<noteq> ''SkyLight''
                                   then push_if_ok e lightComp ''SetAttenuationRadius''
                                          (JObj [(''NewRadius'', JNum r)]) (Attenuation_radius r) steps2
                                   else io_return steps2)
                        (\<lambda>steps3.
                      io_bind (if light_type = ''SpotLight'' then
                                 (case inner_cone_angle of
                                    None \<Rightarrow> io_return steps3
                                  | Some a \<Rightarrow>
                                      push_always e lightComp ''SetInnerConeAngle''
                                        (JObj [(''NewInnerConeAngle'', JNum a)]) (Inner_cone a) steps3)
                               else io_return steps3)
                        (\<lambda>steps4.
                      io_bind (if light_type = ''SpotLight'' then
                                 (case outer_cone_angle of
                                    None \<Rightarrow> io_return steps4
                                  | Some a \<Rightarrow>
                                      push_always e lightComp ''SetOuterConeAngle''
                                        (JObj [(''NewOuterConeAngle'', JNum a)]) (Outer_cone a) steps4)
                               else io_return steps4)
                        (\<lambda>steps5.
                      io_bind (push_if_ok e lightComp ''SetCastShadows''
                                 (JObj [(''NewCastShadows'', JBool cast_shadows)])
                                 (Cast_shadows cast_shadows) steps5)
                        (\<lambda>steps6.
                      io_bind (case rotation of
                                 None \<Rightarrow> io_return steps6
                               | Some r \<Rightarrow>
                                   push_always e actorPath ''K2_SetActorRotation'' (rotation_params r)
                                     (Light_rotation (pitch r) (yaw r) (roll r)) steps6)
                        (\<lambda>steps7.
                      io_bind (case label of
                                 None \<Rightarrow> io_return steps7
                               | Some l \<Rightarrow>
                                   if l = [] then io_return steps7
                                   else push_always e actorPath ''SetActorLabel''
                                          (JObj [(''NewActorLabel'', JStr l)]) (Light_label l) steps7)
                        (\<lambda>steps8.
                      io_bind (io_of (template e actorPath))
                        (\<lambda>shown'.
                      io_return (textResult (Light_spawned actorPath steps8))))))))))))))))"

section \<open>The command registry: ue5_editor_command\<close>

record command =
  objectPath :: string
  functionName :: string
  parameters :: "jsval option"
  description :: string

definition UnrealEditorSubsystem :: string where
  "UnrealEditorSubsystem = ''/Script/UnrealEd.Default__UnrealEditorSubsystem''"

definition EditorLoadingAndSavingUtils :: string where
  "EditorLoadingAndSavingUtils = ''/Script/UnrealEd.Default__EditorLoadingAndSavingUtils''"

definition EDITOR_COMMANDS :: "(string \<times> command) list" where
  "EDITOR_COMMANDS =
     [(''play'',
         \<lparr>objectPath = UnrealEditorSubsystem, functionName = ''StartPIE'',
          parameters = Some (JObj [(''bSimulateInEditor'', JBool False)]),
          description = ''Start Play In Editor (PIE)''\<rparr>),
      (''simulate'',
         \<lparr>objectPath = UnrealEditorSubsystem, functionName = ''StartPIE'',
          parameters = Some (JObj [(''bSimulateInEditor'', JBool True)]),
          description = ''Start Simulate In Editor''\<rparr>),
      (''stop'',
         \<lparr>objectPath = UnrealEditorSubsystem, functionName = ''EndPIE'',
          parameters = None, description = ''Stop Play In Editor''\<rparr>),
      (''save_current_level'',
         \<lparr>objectPath = EditorLoadingAndSavingUtils, functionName = ''SaveCurrentLevel'',
          parameters = None, description = ''Save the current level''\<rparr>),
      (''save_all'',
         \<lparr>objectPath = EditorLoadingAndSavingUtils, functionName = ''SaveDirtyPackages'',
          parameters = Some (JObj [(''bPromptUserToSave'', JBool False),
                                   (''bSaveMapPackages'', JBool True),
                                   (''bSaveContentPackages'', JBool True)]),
          description = ''Save all dirty packages''\<rparr>),
      (''undo'',
         \<lparr>objectPath = UnrealEditorSubsystem, functionName = ''Undo'',
          parameters = None, description = ''Undo the last action''\<rparr>),
      (''redo'',
         \<lparr>objectPath = UnrealEditorSubsystem, functionName = ''Redo'',
          parameters = None, description = ''Redo the last undone action''\<rparr>),
      (''select_none'',
         \<lparr>objectPath = EditorActorSubsystem, functionName = ''ClearActorSelectionSet'',
          parameters = None, description = ''Deselect all actors''\<rparr>),
      (''delete_selected'',
         \<lparr>objectPath = EditorActorSubsystem, functionName = ''DestroySelectedActors'',
          parameters = None, description = ''Delete all selected actors''\<rparr>),
      (''duplicate_selected'',
         \<lparr>objectPath = EditorActorSubsystem, functionName = ''DuplicateSelectedActors'',
          parameters = None, description = ''Duplicate all selected actors''\<rparr>)]"

text \<open>
  The handler, lines 816 to 835. \<open>EDITOR_COMMANDS[command]\<close> is an own entry, an
  inherited member (truthy, with no \<open>objectPath\<close>, \<open>functionName\<close>, \<open>parameters\<close> or
  \<open>description\<close> of its own) or \<open>undefined\<close>.
\<close>

definition editor_command_handler ::
  "env \<Rightarrow> string \<Rightarrow> request list \<Rightarrow> tool_result \<times> request list" where
  "editor_command_handler e cmd_name =
     try_catch
      (case member_of EDITOR_COMMANDS cmd_name of
         Absent \<Rightarrow> io_return (errorResult (Unknown_command cmd_name))
       | Own cmd \<Rightarrow>
           io_bind (rcCall e (Some (JStr (objectPath cmd))) (Some (JStr (functionName cmd)))
                      (parameters cmd))
             (\<lambda>res. if \<not> ok res
                    then io_return (errorResult (Http_failed ''Command'' (status res) (data res)))
                    else io_return (textResult (Executed (Some (description cmd)))))
       | Inherited k \<Rightarrow>
           io_bind (rcCall e None None None)
             (\<lambda>res. if \<not> ok res
                    then io_return (errorResult (Http_failed ''Command'' (status res) (data res)))
                    else io_return (textResult (Executed None))))"

text \<open>
  Modelled from the MCP server library, which the repository relies on for
  \<open>server.registerTool(name, {inputSchema, ...}, handler)\<close>: the server validates the
  arguments of an invocation against the input schema and calls the handler only with
  arguments the schema accepts; otherwise it answers with an invalid-arguments error,
  the handler not called.
\<close>

definition registerTool ::
  "('a \<Rightarrow> bool) \<Rightarrow> ('a \<Rightarrow> request list \<Rightarrow> tool_result \<times> request list) \<Rightarrow>
   'a \<Rightarrow> request list \<Rightarrow> tool_result \<times> request list" where
  "registerTool inputSchema handler args tr =
     (if inputSchema args then handler args tr else (errorResult Invalid_arguments, tr))"

text \<open>
  The input schema of \<open>ue5_editor_command\<close>, lines 805 to 807:
  \<open>command: z.enum(Object.keys(EDITOR_COMMANDS))\<close>, the own keys of the table.
\<close>

definition command_schema :: "string \<Rightarrow> bool" where
  "command_schema cmd_name = (cmd_name \<in> set (map fst EDITOR_COMMANDS))"

definition ue5_editor_command ::
  "env \<Rightarrow> string \<Rightarrow> request list \<Rightarrow> tool_result \<times> request list" where
  "ue5_editor_command e = registerTool command_schema (editor_command_handler e)"

section \<open>The batch translator: ue5_batch\<close>

text \<open>\<open>operations.map((op, index) => ...)\<close>: one entry of \<open>Requests\<close>.\<close>

definition batch_entry :: "nat \<Rightarrow> operation \<Rightarrow> jsval" where
  "batch_entry index op =
     (if op_type op = Call then
        JObj [(''RequestId'', JNum (of_nat index)),
              (''URL'', JStr ''/remote/object/call''),
              (''Verb'', JStr ''PUT''),
              (''Body'',
                 JObj ([(''objectPath'', JStr (object_path op))] @
                       own_prop ''functionName'' (map_option JStr (function_name op)) @
                       [(''parameters'',
                           (case js_or (op_parameters op) (Some (JObj [])) of
                              Some p \<Rightarrow> p | None \<Rightarrow> JObj [])),
                        (''generateTransaction'', JBool True)]))]
      else
        JObj [(''RequestId'', JNum (of_nat index)),
              (''URL'', JStr ''/remote/object/property''),
              (''Verb'', JStr ''PUT''),
              (''Body'',
                 JObj ([(''objectPath'', JStr (object_path op))] @
                       own_prop ''propertyName'' (map_option JStr (property_name op)) @
                       own_prop ''propertyValue'' (property_value op)))])"

definition batch_body :: "operation list \<Rightarrow> jsval" where
  "batch_body operations =
     JObj [(''Requests'', JArr (map (\<lambda>(index, op). batch_entry index op) (enumerate 0 operations)))]"

definition batch_request :: "env \<Rightarrow> operation list \<Rightarrow> request" where
  "batch_request e operations =
     \<lparr>url = baseUrl e @ ''/remote/batch'', verb = ''PUT'', content = Some (batch_body operations)\<rparr>"

text \<open>\<open>res.data?.Responses || res.data || []\<close>\<close>

definition responses_of :: "jsval \<Rightarrow> jsval" where
  "responses_of d =
     (case js_or (js_or (js_get d ''Responses'') (Some d)) (Some (JArr [])) of
        Some v \<Rightarrow> v
      | None \<Rightarrow> JArr [])"

text \<open>
  \<open>responses.find((r) => r.RequestId === i)\<close>: the first element whose \<open>RequestId\<close> is
  the number \<open>i\<close>; reading \<open>RequestId\<close> of a \<open>null\<close> element throws.
\<close>

fun find_RequestId :: "jsval list \<Rightarrow> nat \<Rightarrow> exn + jsval option" where
  "find_RequestId [] i = Inr None"
| "find_RequestId (r # rs) i =
     (if r = JNull then Inl (Null_property ''RequestId'')
      else if js_get r ''RequestId'' = Some (JNum (of_nat i)) then Inr (Some r)
      else find_RequestId rs i)"

text \<open>\<open>responses[i]\<close>\<close>

definition element :: "jsval list \<Rightarrow> nat \<Rightarrow> jsval option" where
  "element rs i = (if i < length rs then Some (rs ! i) else None)"

text \<open>
  \<open>Array.isArray(responses) ? responses.find(...) || responses[i] : undefined\<close>
\<close>

definition resp_for :: "jsval \<Rightarrow> nat \<Rightarrow> exn + jsval option" where
  "resp_for responses i =
     (case responses of
        JArr rs \<Rightarrow>
          (case find_RequestId rs i of
             Inl err \<Rightarrow> Inl err
           | Inr found \<Rightarrow> Inr (js_or found (element rs i)))
      | _ \<Rightarrow> Inr None)"

text \<open>\<open>resp?.StatusCode || resp?.status || "?"\<close>\<close>

definition status_of :: "jsval option \<Rightarrow> jsval" where
  "status_of resp =
     (case js_or (js_or (js_get_opt resp ''StatusCode'') (js_get_opt resp ''status''))
                 (Some (JStr ''?'')) of
        Some v \<Rightarrow> v
      | None \<Rightarrow> JStr ''?'')"

text \<open>
  The number a value is compared as by \<open>>=\<close> and \<open><\<close> against a number, once it
  has a primitive: a number is itself, \<open>true\<close> is 1, \<open>false\<close> and \<open>null\<close> are 0, and a
  string, array or object is converted by the language (\<open>None\<close> is \<open>NaN\<close>, for which
  every comparison is false).
\<close>

definition number_of :: "env \<Rightarrow> jsval \<Rightarrow> rat option" where
  "number_of e v =
     (case v of
        JNum n \<Rightarrow> Some n
      | JBool b \<Rightarrow> Some (if b then 1 else 0)
      | JNull \<Rightarrow> Some 0
      | _ \<Rightarrow> ToNumber e v)"

text \<open>
  \<open>status >= 200 && status < 300\<close>: the comparison first converts \<open>status\<close> to a
  primitive, which throws for a value that has none.
\<close>

definition status_2xx :: "env \<Rightarrow> jsval \<Rightarrow> exn + bool" where
  "status_2xx e v =
     (if unconvertible v then Inl Not_primitive
      else Inr (case number_of e v of Some n \<Rightarrow> 200 \<le> n \<and> n < 300 | None \<Rightarrow> False))"

text \<open>
  The loop \<open>for (let i = 0; i < operations.length; i++)\<close>, from index \<open>i\<close> over the
  operations still to report. Each round finds the entry, picks the status, compares
  it (line 927) and renders it into the report line (line 936); a throw in any of
  these leaves the loop. A verdict records the status value its line shows.
\<close>

fun batch_loop :: "env \<Rightarrow> jsval \<Rightarrow> operation list \<Rightarrow> nat \<Rightarrow> exn + verdict list" where
  "batch_loop e responses [] i = Inr []"
| "batch_loop e responses (op # ops) i =
     (case resp_for responses i of
        Inl err \<Rightarrow> Inl err
      | Inr resp \<Rightarrow>
          (let st = status_of resp in
           (case status_2xx e st of
              Inl err \<Rightarrow> Inl err
            | Inr good \<Rightarrow>
                (case template e st of
                   Inl err \<Rightarrow> Inl err
                 | Inr shown \<Rightarrow>
                     (case batch_loop e responses ops (Suc i) of
                        Inl err \<Rightarrow> Inl err
                      | Inr vs \<Rightarrow>
                          Inr (\<lparr>line_number = i + 1, icon_ok = good, described = op,
                                shown_status = st\<rparr> # vs))))))"

definition ue5_batch :: "env \<Rightarrow> operation list \<Rightarrow> request list \<Rightarrow> tool_result \<times> request list" where
  "ue5_batch e operations =
     try_catch
      (io_bind (rcFetch e ''/remote/batch'' ''PUT'' (Some (batch_body operations)))
         (\<lambda>res.
            if \<not> ok res then
              io_return (errorResult (Http_failed ''Batch request'' (status res) (data res)))
            else
              io_bind (io_of (batch_loop e (responses_of (data res)) operations 0))
                (\<lambda>vs. io_return (textResult (Batch_results vs)))))"

section \<open>Vocabulary for the properties\<close>

text \<open>The host answers every request with an HTTP response: no call throws.\<close>

definition responsive :: "env \<Rightarrow> bool" where
  "responsive e = (\<forall>tr req. \<exists>st txt. fetch e tr req = Http_response st txt)"

text \<open>
  The results the host gave to a sequence of requests issued one after the other,
  starting after the requests \<open>tr\<close>.
\<close>

fun replay ::
  "(request list \<Rightarrow> request \<Rightarrow> fetch_result) \<Rightarrow> request list \<Rightarrow> request list \<Rightarrow> fetch_result list" where
  "replay host tr [] = []"
| "replay host tr (r # rs) = host tr r # replay host (tr @ [r]) rs"

text \<open>The status of a response outside 2xx; \<open>None\<close> for a 2xx response (and a throw).\<close>

fun failure_status :: "fetch_result \<Rightarrow> int option" where
  "failure_status (Http_response st txt) = (if Response_ok st then None else Some st)"
| "failure_status Abort_error = None"
| "failure_status (Fetch_error msg) = None"

text \<open>Which step a log entry reports, and the status it warns of, if it is a warning.\<close>

fun kind_of :: "step \<Rightarrow> step_kind" where
  "kind_of (Spawned c a) = Primary"
| "kind_of (Set_mesh m) = Mesh"
| "kind_of Set_mobility = Mobility"
| "kind_of Enabled_physics = Physics"
| "kind_of Enabled_gravity = Gravity"
| "kind_of (Set_label l) = Label"
| "kind_of (Set_rotation p y r) = Rotation"
| "kind_of (Set_scale a b c) = Scale"
| "kind_of (Warning k st) = k"

fun warning_status :: "step \<Rightarrow> int option" where
  "warning_status (Warning k st) = Some st"
| "warning_status s = None"

text \<open>The remote function each step calls, and the function a request names.\<close>

fun function_of :: "step_kind \<Rightarrow> string" where
  "function_of Primary = ''SpawnActorFromClass''"
| "function_of Mesh = ''SetStaticMesh''"
| "function_of Mobility = ''SetMobility''"
| "function_of Physics = ''SetSimulatePhysics''"
| "function_of Gravity = ''SetEnableGravity''"
| "function_of Label = ''SetActorLabel''"
| "function_of Rotation = ''K2_SetActorRotation''"
| "function_of Scale = ''SetActorScale3D''"

definition called_function :: "request \<Rightarrow> jsval option" where
  "called_function req = js_get_opt (content req) ''functionName''"

text \<open>
  The configuration steps an invocation asks for, in the declared order. A mesh or a
  label is asked for when the string is given and not empty (the handler's
  \<open>if (mesh)\<close>, \<open>if (label)\<close>).
\<close>

definition given :: "string option \<Rightarrow> bool" where
  "given s = (case s of None \<Rightarrow> False | Some t \<Rightarrow> t \<noteq> [])"

definition planned ::
  "string option \<Rightarrow> bool \<Rightarrow> string option \<Rightarrow> rotator option \<Rightarrow> vec option \<Rightarrow> step_kind list" where
  "planned mesh simulate_physics label rotation scale =
     (if given mesh then [Mesh] else []) @
     (if simulate_physics then [Mobility, Physics, Gravity] else []) @
     (if given label then [Label] else []) @
     (if rotation = None then [] else [Rotation]) @
     (if scale = None then [] else [Scale])"

text \<open>
  A phase of the configuration: from any log and any request history it returns,
  having appended one entry per step of \<open>ks\<close>, in that order, and issued one request per
  step; an entry is a warning exactly when the response to its request was outside
  2xx, and then carries that status.
\<close>

definition phase ::
  "env \<Rightarrow> (step list \<Rightarrow> step list io) \<Rightarrow> step_kind list \<Rightarrow> bool" where
  "phase e p ks =
     (\<forall>steps tr. \<exists>new reqs.
        p steps tr = (Inr (steps @ new), tr @ reqs)
        \<and> map kind_of new = ks
        \<and> map called_function reqs = map (\<lambda>k. Some (JStr (function_of k))) ks
        \<and> map warning_status new = map failure_status (replay (fetch e) tr reqs))"

text \<open>
  The entries of a batch response, as the loop sees them: the elements of
  \<open>responses\<close> when it is an array, none otherwise.
\<close>

definition entries_of :: "jsval \<Rightarrow> jsval list" where
  "entries_of d = (case responses_of d of JArr rs \<Rightarrow> rs | _ \<Rightarrow> [])"

text \<open>
  The correlation the specification describes: the response entry whose \<open>RequestId\<close>
  equals \<open>i\<close> (the first such), else the entry at position \<open>i\<close>, else none.
\<close>

definition matching_entry :: "jsval list \<Rightarrow> nat \<Rightarrow> jsval option" where
  "matching_entry rs i =
     (case find (\<lambda>r. js_get r ''RequestId'' = Some (JNum (of_nat i))) rs of
        Some r \<Rightarrow> Some r
      | None \<Rightarrow> if i < length rs then Some (rs ! i) else None)"

text \<open>
  A response entry the loop can read: it is not \<open>null\<close> and the status it carries
  has a primitive.
\<close>

definition readable_entry :: "jsval \<Rightarrow> bool" where
  "readable_entry r = (r \<noteq> JNull \<and> \<not> unconvertible (status_of (Some r)))"

section \<open>Concrete hosts for the scenarios\<close>

text \<open>
  A host that answers every request with status \<open>st\<close> and a body that parses to \<open>v\<close>
  (a body that is not JSON when \<open>v\<close> is \<open>None\<close>).
\<close>

definition fixed_host :: "int \<Rightarrow> jsval option \<Rightarrow> env" where
  "fixed_host st v =
     \<lparr>baseUrl = ''http://localhost:30010'',
      fetch = (\<lambda>tr req. Http_response st ''body''),
      JSON_parse = (\<lambda>s. v),
      ToNumber = (\<lambda>w. None),
      ToString = (\<lambda>w. ''[object Object]'')\<rparr>"

text \<open>
  A host that answers 404 to the calls of the functions \<open>fns\<close> and 200 to every other
  request, each time with a body that parses to \<open>{ReturnValue: "/Game/Map.Actor_1"}\<close>.
\<close>

definition flaky_host :: "string list \<Rightarrow> env" where
  "flaky_host fns =
     \<lparr>baseUrl = ''http://localhost:30010'',
      fetch = (\<lambda>tr req. if called_function req \<in> set (map (\<lambda>f. Some (JStr f)) fns)
                          then Http_response 404 ''body'' else Http_response 200 ''body''),
      JSON_parse = (\<lambda>s. Some (JObj [(''ReturnValue'', JStr ''/Game/Map.Actor_1'')])),
      ToNumber = (\<lambda>w. None),
      ToString = (\<lambda>w. ''[object Object]'')\<rparr>"

text \<open>A host that cannot be reached in time: every request is aborted by the timer.\<close>

definition silent_host :: env where
  "silent_host =
     \<lparr>baseUrl = ''http://localhost:30010'',
      fetch = (\<lambda>tr req. Abort_error),
      JSON_parse = (\<lambda>s. None),
      ToNumber = (\<lambda>w. None),
      ToString = (\<lambda>w. ''[object Object]'')\<rparr>"

text \<open>Operations and response entries for the batch scenarios.\<close>

definition call_op :: "string \<Rightarrow> string \<Rightarrow> operation" where
  "call_op p f =
     \<lparr>op_type = Call, object_path = p, function_name = Some f, property_name = None,
      op_parameters = None, property_value = None\<rparr>"

definition response_entry :: "nat \<Rightarrow> rat \<Rightarrow> jsval" where
  "response_entry i st = JObj [(''RequestId'', JNum (of_nat i)), (''StatusCode'', JNum st)]"

text \<open>A host that refuses the connection: \<open>fetch\<close> rejects with an error that is not an abort.\<close>

definition refusing_host :: env where
  "refusing_host =
     \<lparr>baseUrl = ''http://localhost:30010'',
      fetch = (\<lambda>tr req. Fetch_error ''fetch failed''),
      JSON_parse = (\<lambda>s. None),
      ToNumber = (\<lambda>w. None),
      ToString = (\<lambda>w. ''[object Object]'')\<rparr>"

text \<open>
  A host that answers 404 to the calls of the functions \<open>fns\<close>, never answers the calls
  of the functions \<open>stalled\<close> (the timer aborts them), and answers 200 to every other
  request, with a body that parses to \<open>{ReturnValue: "/Game/Map.Actor_1"}\<close>.
\<close>

definition stalling_host :: "string list \<Rightarrow> string list \<Rightarrow> env" where
  "stalling_host fns stalled =
     \<lparr>baseUrl = ''http://localhost:30010'',
      fetch = (\<lambda>tr req. if called_function req \<in> set (map (\<lambda>f. Some (JStr f)) stalled)
                          then Abort_error
                          else if called_function req \<in> set (map (\<lambda>f. Some (JStr f)) fns)
                          then Http_response 404 ''body'' else Http_response 200 ''body''),
      JSON_parse = (\<lambda>s. Some (JObj [(''ReturnValue'', JStr ''/Game/Map.Actor_1'')])),
      ToNumber = (\<lambda>w. None),
      ToString = (\<lambda>w. ''[object Object]'')\<rparr>"

section \<open>Properties of the RPC client\<close>

lemma rcFetch_trace:
  "snd (rcFetch e path vb body tr) =
     tr @ [\<lparr>url = baseUrl e @ path, verb = vb, content = (if truthy_opt body then body else None)\<rparr>]"
  by (simp add: rcFetch_def Let_def)

lemma rcCall_trace:
  "snd (rcCall e obj fn ps tr) = tr @ [call_request e obj fn ps]"
  by (simp add: rcCall_def rcFetch_trace call_request_def call_body_def)

lemma rcCall_response:
  "fetch e tr (call_request e obj fn ps) = Http_response st tx \<Longrightarrow>
   rcCall e obj fn ps tr =
     (Inr \<lparr>ok = Response_ok st, status = st,
           data = (case JSON_parse e tx of Some v \<Rightarrow> v | None \<Rightarrow> JStr tx)\<rparr>,
      tr @ [call_request e obj fn ps])"
  by (simp add: rcCall_def rcFetch_def call_request_def call_body_def Let_def)

text \<open>
  C5. Whenever \<open>fetch\<close> delivers an HTTP response, \<open>rcFetch\<close> returns an envelope (it
  does not throw), the envelope's \<open>ok\<close> holds exactly when its status lies in
  [200,300), a non-2xx status is returned with \<open>ok = False\<close>, and a body that does not
  parse as JSON is returned as the raw text in \<open>data\<close> (a parsed body as its value).
\<close>

theorem rcFetch_envelope:
  assumes "fetch e tr \<lparr>url = baseUrl e @ path, verb = vb,
                       content = (if truthy_opt body then body else None)\<rparr> = Http_response st tx"
  shows "\<exists>r. fst (rcFetch e path vb body tr) = Inr r
           \<and> status r = st
           \<and> (ok r \<longleftrightarrow> 200 \<le> status r \<and> status r < 300)
           \<and> (\<not> (200 \<le> st \<and> st < 300) \<longrightarrow> \<not> ok r)
           \<and> (JSON_parse e tx = None \<longrightarrow> data r = JStr tx)
           \<and> (\<forall>v. JSON_parse e tx = Some v \<longrightarrow> data r = v)"
  using assms by (auto simp add: rcFetch_def Let_def Response_ok_def)


text \<open>Scenario C: a 404 with a JSON error body, and a 200 whose body is not JSON.\<close>

theorem rcFetch_envelope_witness:
  "(\<exists>r. fst (rcFetch (fixed_host 404 (Some (JObj [(''errorMessage'', JStr ''Object not found'')])))
              ''/remote/object/call'' ''PUT'' (Some (JObj [])) []) = Inr r
        \<and> status r = 404 \<and> \<not> ok r
        \<and> data r = JObj [(''errorMessage'', JStr ''Object not found'')])
   \<and> (\<exists>r. fst (rcFetch (fixed_host 200 None) ''/remote/info'' ''GET'' None []) = Inr r
        \<and> status r = 200 \<and> ok r \<and> data r = JStr ''body'')"
proof -
  have h1: "fetch (fixed_host 404 (Some (JObj [(''errorMessage'', JStr ''Object not found'')]))) []
              \<lparr>url = baseUrl (fixed_host 404 (Some (JObj [(''errorMessage'', JStr ''Object not found'')])))
                       @ ''/remote/object/call'',
               verb = ''PUT'',
               content = (if truthy_opt (Some (JObj [])) then Some (JObj []) else None)\<rparr> =
            Http_response 404 ''body''"
    by (simp add: fixed_host_def)
  have h2: "fetch (fixed_host 200 None) []
              \<lparr>url = baseUrl (fixed_host 200 None) @ ''/remote/info'', verb = ''GET'',
               content = (if truthy_opt None then None else None)\<rparr> =
            Http_response 200 ''body''"
    by (simp add: fixed_host_def)
  have p1: "JSON_parse (fixed_host 404 (Some (JObj [(''errorMessage'', JStr ''Object not found'')]))) ''body''
              = Some (JObj [(''errorMessage'', JStr ''Object not found'')])"
    and p2: "JSON_parse (fixed_host 200 None) ''body'' = None"
    by (simp_all add: fixed_host_def)
  show ?thesis
    using rcFetch_envelope [OF h1] rcFetch_envelope [OF h2] p1 p2 by auto
qed

section \<open>Properties of the composite spawn\<close>

lemma template_convertible: "\<not> unconvertible v \<Longrightarrow> template e v = Inr (rendered e v)"
  by (simp add: template_def)

lemma io_bind_io_of_Inr: "io_bind (io_of (Inr x)) f = f x"
  by (intro ext) (simp add: io_bind_def io_of_def)

lemma resolve_convertible: "\<not> unconvertible (resolve tbl t)"
  by (simp add: resolve_def split: member.splits)

lemma replay_append:
  "replay host tr (xs @ ys) = replay host tr xs @ replay host (tr @ xs) ys"
  by (induction xs arbitrary: tr) simp_all

lemma configure_response:
  assumes "fetch e tr (call_request e (Some target) (Some (JStr fn)) (Some params)) = Http_response st txt"
  shows "configure e target fn params done kind steps tr =
           (Inr (steps @ [if Response_ok st then done else Warning kind st]),
            tr @ [call_request e (Some target) (Some (JStr fn)) (Some params)])"
  using rcCall_response [OF assms]
  by (simp add: configure_def io_bind_def io_return_def)

lemma called_function_call_request:
  "called_function (call_request e obj (Some f) ps) = Some f"
  by (cases obj) (simp_all add: called_function_def call_request_def call_body_def)

lemma phase_configure:
  assumes "responsive e" and "kind_of done = kind" and "warning_status done = None"
    and "function_of kind = fn"
  shows "phase e (configure e target fn params done kind) [kind]"
  unfolding phase_def
proof (intro allI)
  fix steps tr
  let ?req = "call_request e (Some target) (Some (JStr fn)) (Some params)"
  from assms(1) obtain st tx where r: "fetch e tr ?req = Http_response st tx"
    unfolding responsive_def by blast
  show "\<exists>new reqs. configure e target fn params done kind steps tr = (Inr (steps @ new), tr @ reqs)
          \<and> map kind_of new = [kind]
          \<and> map called_function reqs = map (\<lambda>k. Some (JStr (function_of k))) [kind]
          \<and> map warning_status new = map failure_status (replay (fetch e) tr reqs)"
    apply (rule exI [of _ "[if Response_ok st then done else Warning kind st]"])
    apply (rule exI [of _ "[?req]"])
    using assms(2,3,4) r
    by (simp add: configure_response [OF r] called_function_call_request)
qed

lemma phase_return: "phase e io_return []"
  by (simp add: phase_def io_return_def)

lemma phase_bind:
  assumes "phase e p ks" and "phase e q ls"
  shows "phase e (\<lambda>steps. io_bind (p steps) q) (ks @ ls)"
  unfolding phase_def
proof (intro allI)
  fix steps tr
  from assms(1) obtain n1 r1 where
    p: "p steps tr = (Inr (steps @ n1), tr @ r1)" "map kind_of n1 = ks"
       "map called_function r1 = map (\<lambda>k. Some (JStr (function_of k))) ks"
       "map warning_status n1 = map failure_status (replay (fetch e) tr r1)"
    unfolding phase_def by blast
  from assms(2) obtain n2 r2 where
    q: "q (steps @ n1) (tr @ r1) = (Inr ((steps @ n1) @ n2), (tr @ r1) @ r2)" "map kind_of n2 = ls"
       "map called_function r2 = map (\<lambda>k. Some (JStr (function_of k))) ls"
       "map warning_status n2 = map failure_status (replay (fetch e) (tr @ r1) r2)"
    unfolding phase_def by blast
  show "\<exists>new reqs. io_bind (p steps) q tr = (Inr (steps @ new), tr @ reqs)
          \<and> map kind_of new = ks @ ls
          \<and> map called_function reqs = map (\<lambda>k. Some (JStr (function_of k))) (ks @ ls)
          \<and> map warning_status new = map failure_status (replay (fetch e) tr reqs)"
    apply (rule exI [of _ "n1 @ n2"])
    apply (rule exI [of _ "r1 @ r2"])
    using p q by (simp add: io_bind_def replay_append)
qed

lemma phase_mesh:
  assumes "responsive e" and "\<not> unconvertible a"
  shows "phase e (mesh_step e a mesh) (if given mesh then [Mesh] else [])"
proof (cases "given mesh")
  case True
  then obtain m where m: "mesh = Some m" "m \<noteq> []"
    by (auto simp add: given_def split: option.splits)
  have "mesh_step e a mesh =
          configure e (JStr (rendered e a @ ''.StaticMeshComponent0'')) ''SetStaticMesh''
            (JObj [(''NewMesh'', resolve ENGINE_MESHES m)]) (Set_mesh (resolve ENGINE_MESHES m)) Mesh"
    using m assms(2)
    by (intro ext) (simp add: mesh_step_def Let_def template_convertible io_bind_io_of_Inr)
  then show ?thesis
    using True phase_configure [OF assms(1), where kind = Mesh and fn = "''SetStaticMesh''"
        and ?done = "Set_mesh (resolve ENGINE_MESHES m)"] by simp
next
  case False
  then have "mesh_step e a mesh = io_return"
    by (intro ext) (auto simp add: mesh_step_def given_def split: option.splits)
  then show ?thesis using False phase_return by simp
qed

lemma phase_label:
  assumes "responsive e"
  shows "phase e (label_step e a label) (if given label then [Label] else [])"
proof (cases "given label")
  case True
  then obtain l where l: "label = Some l" "l \<noteq> []"
    by (auto simp add: given_def split: option.splits)
  have "label_step e a label =
          configure e a ''SetActorLabel'' (JObj [(''NewActorLabel'', JStr l)]) (Set_label l) Label"
    using l by (intro ext) (simp add: label_step_def)
  then show ?thesis
    using True phase_configure [OF assms, where kind = Label and fn = "''SetActorLabel''"
        and ?done = "Set_label l"] by simp
next
  case False
  then have "label_step e a label = io_return"
    by (intro ext) (auto simp add: label_step_def given_def split: option.splits)
  then show ?thesis using False phase_return by simp
qed

lemma phase_rotation:
  assumes "responsive e"
  shows "phase e (rotation_step e a rotation) (if rotation = None then [] else [Rotation])"
proof (cases rotation)
  case None
  then have "rotation_step e a rotation = io_return"
    by (intro ext) (simp add: rotation_step_def)
  then show ?thesis using None phase_return by simp
next
  case (Some r)
  then have "rotation_step e a rotation =
          configure e a ''K2_SetActorRotation'' (rotation_params r)
            (Set_rotation (pitch r) (yaw r) (roll r)) Rotation"
    by (intro ext) (simp add: rotation_step_def)
  then show ?thesis
    using Some phase_configure [OF assms, where kind = Rotation and fn = "''K2_SetActorRotation''"
        and ?done = "Set_rotation (pitch r) (yaw r) (roll r)"] by simp
qed

lemma phase_scale:
  assumes "responsive e"
  shows "phase e (scale_step e a scale) (if scale = None then [] else [Scale])"
proof (cases scale)
  case None
  then have "scale_step e a scale = io_return"
    by (intro ext) (simp add: scale_step_def)
  then show ?thesis using None phase_return by simp
next
  case (Some s)
  then have "scale_step e a scale =
          configure e a ''SetActorScale3D'' (JObj [(''NewScale3D'', XYZ (vx s) (vy s) (vz s))])
            (Set_scale (vx s) (vy s) (vz s)) Scale"
    by (intro ext) (simp add: scale_step_def)
  then show ?thesis
    using Some phase_configure [OF assms, where kind = Scale and fn = "''SetActorScale3D''"
        and ?done = "Set_scale (vx s) (vy s) (vz s)"] by simp
qed

lemma phase_physics:
  assumes "responsive e" and "\<not> unconvertible a"
  shows "phase e (physics_steps e a sim) (if sim then [Mobility, Physics, Gravity] else [])"
proof (cases sim)
  case False
  then have "physics_steps e a sim = io_return"
    by (intro ext) (simp add: physics_steps_def)
  then show ?thesis using False phase_return by simp
next
  case True
  let ?comp = "JStr (rendered e a @ ''.StaticMeshComponent0'')"
  let ?mob = "configure e ?comp ''SetMobility'' (JObj [(''NewMobility'', JStr ''Movable'')])
                Set_mobility Mobility"
  let ?sim = "configure e ?comp ''SetSimulatePhysics'' (JObj [(''bSimulate'', JBool True)])
                Enabled_physics Physics"
  let ?grav = "configure e ?comp ''SetEnableGravity'' (JObj [(''bGravityEnabled'', JBool True)])
                Enabled_gravity Gravity"
  have eq: "physics_steps e a sim = (\<lambda>steps. io_bind (?mob steps) (\<lambda>s1. io_bind (?sim s1) ?grav))"
    using True assms(2)
    by (intro ext) (simp add: physics_steps_def Let_def template_convertible io_bind_io_of_Inr)
  have m: "phase e ?mob [Mobility]" and s: "phase e ?sim [Physics]" and g: "phase e ?grav [Gravity]"
    by (rule phase_configure [OF assms(1)]; simp)+
  have "phase e (\<lambda>s1. io_bind (?sim s1) ?grav) ([Physics] @ [Gravity])"
    by (rule phase_bind [OF s g])
  then have "phase e (\<lambda>steps. io_bind (?mob steps) (\<lambda>s1. io_bind (?sim s1) ?grav))
               ([Mobility] @ ([Physics] @ [Gravity]))"
    by (rule phase_bind [OF m])
  then show ?thesis using True eq by simp
qed

lemma io_bind_assoc: "io_bind (io_bind m f) g = io_bind m (\<lambda>x. io_bind (f x) g)"
  by (intro ext) (simp add: io_bind_def split: prod.splits sum.splits)

lemma phase_config:
  assumes "responsive e" and "\<not> unconvertible a"
  shows "phase e
           (\<lambda>steps. io_bind (mesh_step e a mesh steps)
              (\<lambda>steps1. io_bind (physics_steps e a sim steps1)
              (\<lambda>steps2. io_bind (label_step e a label steps2)
              (\<lambda>steps3. io_bind (rotation_step e a rotation steps3)
                 (scale_step e a scale)))))
           (planned mesh sim label rotation scale)"
  unfolding planned_def
  by (intro phase_bind phase_mesh phase_physics phase_label phase_rotation phase_scale assms)

lemma primary_call_trace:
  "snd (primary_call e (resolve ACTOR_CLASSES actor_class) location tr) =
     tr @ [spawn_request e actor_class location]"
  by (simp add: primary_call_def rcCall_trace spawn_request_def)

lemma spawn_actor_success:
  assumes resp: "responsive e"
    and prim: "fst (primary_call e (resolve ACTOR_CLASSES actor_class) location tr) = Inr res"
    and ok: "ok res" and rv: "js_get (data res) ''ReturnValue'' = Some a" and tr: "truthy a"
    and conv: "\<not> unconvertible a"
  shows "\<exists>log reqs.
           ue5_spawn_actor e actor_class mesh label location rotation scale sim tr =
             (textResult (Actor_spawned a (Spawned (resolve ACTOR_CLASSES actor_class) a # log)),
              tr @ spawn_request e actor_class location # reqs)
           \<and> map kind_of log = planned mesh sim label rotation scale
           \<and> map called_function reqs =
               map (\<lambda>k. Some (JStr (function_of k))) (planned mesh sim label rotation scale)
           \<and> map warning_status log =
               map failure_status (replay (fetch e) (tr @ [spawn_request e actor_class location]) reqs)"
proof -
  let ?c = "resolve ACTOR_CLASSES actor_class"
  let ?tr1 = "tr @ [spawn_request e actor_class location]"
  let ?cfg = "\<lambda>steps. io_bind (mesh_step e a mesh steps)
              (\<lambda>steps1. io_bind (physics_steps e a sim steps1)
              (\<lambda>steps2. io_bind (label_step e a label steps2)
              (\<lambda>steps3. io_bind (rotation_step e a rotation steps3)
                 (scale_step e a scale))))"
  from phase_config [OF resp conv, of mesh sim label rotation scale]
  obtain log reqs where
    c: "?cfg [Spawned ?c a] ?tr1 = (Inr ([Spawned ?c a] @ log), ?tr1 @ reqs)"
       "map kind_of log = planned mesh sim label rotation scale"
       "map called_function reqs =
          map (\<lambda>k. Some (JStr (function_of k))) (planned mesh sim label rotation scale)"
       "map warning_status log = map failure_status (replay (fetch e) ?tr1 reqs)"
    unfolding phase_def by blast
  have p: "primary_call e ?c location tr = (Inr res, ?tr1)"
    using prim primary_call_trace [of e actor_class location tr]
    by (cases "primary_call e ?c location tr") simp
  have "ue5_spawn_actor e actor_class mesh label location rotation scale sim tr =
          try_catch (io_bind (?cfg [Spawned ?c a])
                       (\<lambda>steps5. io_return (textResult (Actor_spawned a steps5)))) ?tr1"
    using p ok rv tr conv
    by (simp add: ue5_spawn_actor_def Let_def try_catch_def io_bind_def [of "primary_call e ?c location"]
        io_bind_assoc template_convertible resolve_convertible io_bind_io_of_Inr)
  also have "\<dots> = (textResult (Actor_spawned a (Spawned ?c a # log)), ?tr1 @ reqs)"
    using c(1) by (simp add: try_catch_def io_bind_def io_return_def)
  finally show ?thesis using c(2,3,4) by auto
qed

lemma flaky_host_responsive: "responsive (flaky_host fns)"
  by (simp add: responsive_def flaky_host_def)

lemma flaky_host_primary:
  "''SpawnActorFromClass'' \<notin> set fns \<Longrightarrow>
   fst (primary_call (flaky_host fns) c location tr) =
     Inr \<lparr>ok = True, status = 200, data = JObj [(''ReturnValue'', JStr ''/Game/Map.Actor_1'')]\<rparr>"
  by (simp add: primary_call_def rcCall_def rcFetch_def Let_def flaky_host_def called_function_def
        call_body_def Response_ok_def image_iff)

text \<open>Scenario A, evaluated, with the mobility call answered 404.\<close>

lemma scenario_A:
  "fst (ue5_spawn_actor (flaky_host [''SetMobility'']) ''StaticMeshActor'' (Some ''Cube'') (Some ''Box1'')
       None None None True []) =
   textResult (Actor_spawned (JStr ''/Game/Map.Actor_1'')
     [Spawned (JStr ''/Script/Engine.StaticMeshActor'') (JStr ''/Game/Map.Actor_1''),
      Set_mesh (JStr ''/Engine/BasicShapes/Cube.Cube''),
      Warning Mobility 404, Enabled_physics, Enabled_gravity, Set_label ''Box1''])"
  by (simp add: ue5_spawn_actor_def primary_call_def mesh_step_def physics_steps_def label_step_def
      rotation_step_def scale_step_def configure_def rcCall_def rcFetch_def io_bind_def io_return_def
      try_catch_def Let_def flaky_host_def called_function_def call_body_def Response_ok_def
      resolve_def member_of_def ACTOR_CLASSES_def ENGINE_MESHES_def template_def rendered_def io_of_def)


text \<open>
  C1, as amended. In every invocation of \<open>ue5_spawn_actor\<close> in which a mesh that is
  not the empty string, \<open>simulate_physics = true\<close> and a label that is not the empty
  string are supplied, every individual call succeeds or fails without throwing, and
  the primary spawn returns an ok envelope with a truthy identifier that converts to
  text, the handler returns a step log whose entries are, in exactly this order:
  primary spawn, mesh, mobility, simulate, gravity, label, followed by rotation and
  then scale when those are supplied as well; the calls were issued in that same
  order. The order is fixed by the handler; the arguments are named, so they carry no
  order of their own.
\<close>

theorem spawn_actor_step_order:
  assumes "responsive e"
    and "fst (primary_call e (resolve ACTOR_CLASSES actor_class) location tr) = Inr res"
    and "ok res" and "js_get (data res) ''ReturnValue'' = Some a" and "truthy a"
    and "\<not> unconvertible a"
    and "given mesh" and "given label"
  shows "\<exists>log tr'.
           ue5_spawn_actor e actor_class mesh label location rotation scale True tr =
             (textResult (Actor_spawned a log), tr')
           \<and> map kind_of log =
               [Primary, Mesh, Mobility, Physics, Gravity, Label] @
               (if rotation = None then [] else [Rotation]) @ (if scale = None then [] else [Scale])
           \<and> map called_function (drop (length tr) tr') =
               map (\<lambda>k. Some (JStr (function_of k)))
                 ([Primary, Mesh, Mobility, Physics, Gravity, Label] @
                  (if rotation = None then [] else [Rotation]) @ (if scale = None then [] else [Scale]))"
proof -
  from spawn_actor_success [OF assms(1-6), of mesh label rotation scale True]
  obtain log reqs where
    r: "ue5_spawn_actor e actor_class mesh label location rotation scale True tr =
          (textResult (Actor_spawned a (Spawned (resolve ACTOR_CLASSES actor_class) a # log)),
           tr @ spawn_request e actor_class location # reqs)"
       "map kind_of log = planned mesh True label rotation scale"
       "map called_function reqs =
          map (\<lambda>k. Some (JStr (function_of k))) (planned mesh True label rotation scale)"
    by blast
  have p: "planned mesh True label rotation scale =
             [Mesh, Mobility, Physics, Gravity, Label] @
             (if rotation = None then [] else [Rotation]) @ (if scale = None then [] else [Scale])"
    using assms(7,8) by (simp add: planned_def)
  have f: "called_function (spawn_request e actor_class location) = Some (JStr ''SpawnActorFromClass'')"
    by (simp add: spawn_request_def called_function_call_request)
  show ?thesis
    apply (rule exI [of _ "Spawned (resolve ACTOR_CLASSES actor_class) a # log"])
    apply (rule exI [of _ "tr @ spawn_request e actor_class location # reqs"])
    using r p f by simp
qed

theorem spawn_actor_step_order_witness:
  "\<exists>log tr'.
     ue5_spawn_actor (flaky_host [''SetMobility'']) ''StaticMeshActor'' (Some ''Cube'') (Some ''Box1'')
       None None None True [] = (textResult (Actor_spawned (JStr ''/Game/Map.Actor_1'') log), tr')
     \<and> map kind_of log = [Primary, Mesh, Mobility, Physics, Gravity, Label]
     \<and> map called_function tr' =
         map (\<lambda>k. Some (JStr (function_of k))) [Primary, Mesh, Mobility, Physics, Gravity, Label]"
proof -
  have h: "fst (primary_call (flaky_host [''SetMobility'']) (resolve ACTOR_CLASSES ''StaticMeshActor'')
                  None []) =
             Inr \<lparr>ok = True, status = 200, data = JObj [(''ReturnValue'', JStr ''/Game/Map.Actor_1'')]\<rparr>"
    by (rule flaky_host_primary) simp
  show ?thesis
    using spawn_actor_step_order [OF flaky_host_responsive h, of "JStr ''/Game/Map.Actor_1''"
        "Some ''Cube''" "Some ''Box1''" None None]
    by (simp add: given_def)
qed

text \<open>
  C1 as first stated fails in two ways that the handler's gates decide. A mesh
  supplied as the empty string does not pass \<open>if (mesh)\<close>: with every call answered
  200 the log has five entries and no mesh entry. A primary call that fails without
  throwing (here a 500) ends the handler with an error result: there is no step log.
\<close>

theorem spawn_actor_step_order_counterexample:
  "fst (ue5_spawn_actor (flaky_host []) ''StaticMeshActor'' (Some '''') (Some ''Box1'')
          None None None True []) =
     textResult (Actor_spawned (JStr ''/Game/Map.Actor_1'')
       [Spawned (JStr ''/Script/Engine.StaticMeshActor'') (JStr ''/Game/Map.Actor_1''),
        Set_mobility, Enabled_physics, Enabled_gravity, Set_label ''Box1''])
   \<and> fst (ue5_spawn_actor (fixed_host 500 None) ''StaticMeshActor'' (Some ''Cube'') (Some ''Box1'')
          None None None True []) =
     errorResult (Http_failed ''Spawn'' 500 (JStr ''body''))"
proof -
  have "fst (ue5_spawn_actor (flaky_host []) ''StaticMeshActor'' (Some '''') (Some ''Box1'')
          None None None True []) =
     textResult (Actor_spawned (JStr ''/Game/Map.Actor_1'')
       [Spawned (JStr ''/Script/Engine.StaticMeshActor'') (JStr ''/Game/Map.Actor_1''),
        Set_mobility, Enabled_physics, Enabled_gravity, Set_label ''Box1''])"
    by (simp add: ue5_spawn_actor_def primary_call_def mesh_step_def physics_steps_def label_step_def
      rotation_step_def scale_step_def configure_def rcCall_def rcFetch_def io_bind_def io_return_def
      try_catch_def Let_def flaky_host_def called_function_def call_body_def Response_ok_def
      resolve_def member_of_def ACTOR_CLASSES_def ENGINE_MESHES_def template_def rendered_def io_of_def)
  moreover have "fst (ue5_spawn_actor (fixed_host 500 None) ''StaticMeshActor'' (Some ''Cube'')
          (Some ''Box1'') None None None True []) =
     errorResult (Http_failed ''Spawn'' 500 (JStr ''body''))"
    by (simp add: ue5_spawn_actor_def primary_call_def rcCall_def rcFetch_def io_bind_def
        io_return_def try_catch_def Let_def fixed_host_def Response_ok_def)
  ultimately show ?thesis by simp
qed

text \<open>
  An identifier that has no primitive (an object with a \<open>toString\<close> member of its
  own) makes the first log entry's template literal throw; the handler's catch turns
  that into an error result, before any configuration call.
\<close>

lemma spawn_actor_unrenderable_identifier:
  "ue5_spawn_actor (fixed_host 200 (Some (JObj [(''ReturnValue'', JObj [(''toString'', JNum 1)])])))
     ''StaticMeshActor'' (Some ''Cube'') (Some ''Box1'') None None None True [] =
   (errorResult (Caught Not_primitive),
    [spawn_request (fixed_host 200 (Some (JObj [(''ReturnValue'', JObj [(''toString'', JNum 1)])])))
       ''StaticMeshActor'' None])"
  by (simp add: ue5_spawn_actor_def primary_call_def rcCall_def rcFetch_def io_bind_def
      io_return_def io_of_def try_catch_def Let_def fixed_host_def Response_ok_def template_def
      rendered_def resolve_def member_of_def ACTOR_CLASSES_def spawn_request_def call_request_def
      call_body_def)

text \<open>
  C3. When the primary spawn call returns a non-ok envelope, or an ok envelope whose
  result holds no identifier (\<open>ReturnValue\<close> absent, or present and falsy),
  \<open>ue5_spawn_actor\<close> returns an error result and has issued the spawn request and no
  other: no mesh, physics, label, rotation or scale call is made. The missing identifier
  ends the invocation the way the failed primary call does.
\<close>

theorem spawn_actor_primary_failure:
  assumes "fst (primary_call e (resolve ACTOR_CLASSES actor_class) location tr) = Inr res"
    and "\<not> ok res \<or> \<not> truthy_opt (js_get (data res) ''ReturnValue'')"
  shows "ue5_spawn_actor e actor_class mesh label location rotation scale simulate_physics tr =
           (errorResult (if \<not> ok res then Http_failed ''Spawn'' (status res) (data res)
                         else No_actor_path (data res)),
            tr @ [spawn_request e actor_class location])"
proof -
  let ?c = "resolve ACTOR_CLASSES actor_class"
  have p: "primary_call e ?c location tr = (Inr res, tr @ [spawn_request e actor_class location])"
    using assms(1) primary_call_trace [of e actor_class location tr]
    by (cases "primary_call e ?c location tr") simp
  show ?thesis
    using p assms(2)
    by (auto simp add: ue5_spawn_actor_def Let_def try_catch_def io_bind_def io_return_def
        split: option.splits)
qed

theorem spawn_actor_primary_failure_witness:
  "ue5_spawn_actor (fixed_host 500 None) ''StaticMeshActor'' (Some ''Cube'') (Some ''Box1'')
     None None None True [] =
     (errorResult (Http_failed ''Spawn'' 500 (JStr ''body'')),
      [spawn_request (fixed_host 500 None) ''StaticMeshActor'' None])
   \<and> ue5_spawn_actor (fixed_host 200 (Some (JObj []))) ''StaticMeshActor'' (Some ''Cube'')
       (Some ''Box1'') None None None True [] =
     (errorResult (No_actor_path (JObj [])),
      [spawn_request (fixed_host 200 (Some (JObj []))) ''StaticMeshActor'' None])"
proof -
  have h1: "fst (primary_call (fixed_host 500 None) (resolve ACTOR_CLASSES ''StaticMeshActor'') None []) =
              Inr \<lparr>ok = False, status = 500, data = JStr ''body''\<rparr>"
    by (simp add: primary_call_def rcCall_def rcFetch_def Let_def fixed_host_def Response_ok_def)
  have h2: "fst (primary_call (fixed_host 200 (Some (JObj []))) (resolve ACTOR_CLASSES ''StaticMeshActor'')
                   None []) =
              Inr \<lparr>ok = True, status = 200, data = JObj []\<rparr>"
    by (simp add: primary_call_def rcCall_def rcFetch_def Let_def fixed_host_def Response_ok_def)
  show ?thesis
    using spawn_actor_primary_failure [OF h1, of "Some ''Cube''" "Some ''Box1''" None None True]
      spawn_actor_primary_failure [OF h2, of "Some ''Cube''" "Some ''Box1''" None None True]
    by simp
qed

text \<open>
  C4, as amended. In every invocation of \<open>ue5_spawn_actor\<close> whose primary action
  succeeded (an ok envelope with a truthy identifier that converts to text) and in
  which no call throws, the handler returns a normal report with the created
  identifier and the complete log: one entry for the spawn and one for every
  configuration step asked for, in the declared order, each step's call having been
  issued; a step whose call was answered outside 2xx is logged as a warning carrying
  that status, and every later step is still executed.
\<close>

theorem spawn_actor_degraded_success:
  assumes "responsive e"
    and "fst (primary_call e (resolve ACTOR_CLASSES actor_class) location tr) = Inr res"
    and "ok res" and "js_get (data res) ''ReturnValue'' = Some a" and "truthy a"
    and "\<not> unconvertible a"
  shows "\<exists>log reqs.
           ue5_spawn_actor e actor_class mesh label location rotation scale simulate_physics tr =
             (textResult (Actor_spawned a log), tr @ spawn_request e actor_class location # reqs)
           \<and> map kind_of log = Primary # planned mesh simulate_physics label rotation scale
           \<and> length reqs = length (planned mesh simulate_physics label rotation scale)
           \<and> map warning_status (tl log) =
               map failure_status (replay (fetch e) (tr @ [spawn_request e actor_class location]) reqs)"
proof -
  from spawn_actor_success [OF assms, of mesh label rotation scale simulate_physics]
  obtain log reqs where
    r: "ue5_spawn_actor e actor_class mesh label location rotation scale simulate_physics tr =
          (textResult (Actor_spawned a (Spawned (resolve ACTOR_CLASSES actor_class) a # log)),
           tr @ spawn_request e actor_class location # reqs)"
       "map kind_of log = planned mesh simulate_physics label rotation scale"
       "map called_function reqs =
          map (\<lambda>k. Some (JStr (function_of k))) (planned mesh simulate_physics label rotation scale)"
       "map warning_status log =
          map failure_status (replay (fetch e) (tr @ [spawn_request e actor_class location]) reqs)"
    by blast
  from r(3) have "length reqs = length (planned mesh simulate_physics label rotation scale)"
    by (rule map_eq_imp_length_eq)
  with r(1,2,4) show ?thesis
    by (intro exI [of _ "Spawned (resolve ACTOR_CLASSES actor_class) a # log"] exI [of _ reqs]) simp
qed

theorem spawn_actor_degraded_success_witness:
  "\<exists>log reqs.
     ue5_spawn_actor (flaky_host [''SetStaticMesh'', ''SetEnableGravity'']) ''StaticMeshActor''
       (Some ''Cube'') (Some ''Box1'') None None None True [] =
       (textResult (Actor_spawned (JStr ''/Game/Map.Actor_1'') log),
        spawn_request (flaky_host [''SetStaticMesh'', ''SetEnableGravity'']) ''StaticMeshActor'' None # reqs)
     \<and> map kind_of log = [Primary, Mesh, Mobility, Physics, Gravity, Label]
     \<and> length reqs = 5
     \<and> map warning_status (tl log) =
         map failure_status
           (replay (fetch (flaky_host [''SetStaticMesh'', ''SetEnableGravity'']))
              [spawn_request (flaky_host [''SetStaticMesh'', ''SetEnableGravity'']) ''StaticMeshActor'' None]
              reqs)"
proof -
  have h: "fst (primary_call (flaky_host [''SetStaticMesh'', ''SetEnableGravity''])
                  (resolve ACTOR_CLASSES ''StaticMeshActor'') None []) =
             Inr \<lparr>ok = True, status = 200, data = JObj [(''ReturnValue'', JStr ''/Game/Map.Actor_1'')]\<rparr>"
    by (rule flaky_host_primary) simp
  show ?thesis
    using spawn_actor_degraded_success [OF flaky_host_responsive h, of "JStr ''/Game/Map.Actor_1''"
        "Some ''Cube''" "Some ''Box1''" None None True]
    by (simp add: given_def planned_def eval_nat_numeral)
qed

text \<open>
  C4 as first stated fails where a configuration call throws: the mesh call is
  answered 404 and logged as a warning, the physics calls succeed, and the label call
  is aborted by the timer; the handler's catch returns an error result, and the log
  with its warning is gone.
\<close>

theorem spawn_actor_timeout_counterexample:
  "fst (ue5_spawn_actor (stalling_host [''SetStaticMesh''] [''SetActorLabel'']) ''StaticMeshActor''
          (Some ''Cube'') (Some ''Box1'') None None None True []) =
     errorResult (Caught (Timed_out ''http://localhost:30010/remote/object/call''))"
  by (simp add: ue5_spawn_actor_def primary_call_def mesh_step_def physics_steps_def label_step_def
      rotation_step_def scale_step_def configure_def rcCall_def rcFetch_def io_bind_def io_return_def
      try_catch_def Let_def stalling_host_def called_function_def call_body_def Response_ok_def
      resolve_def member_of_def ACTOR_CLASSES_def ENGINE_MESHES_def template_def rendered_def io_of_def)

text \<open>The same invocation, evaluated: two warnings, and every step after them logged.\<close>

lemma degraded_success_evaluated:
  "fst (ue5_spawn_actor (flaky_host [''SetStaticMesh'', ''SetEnableGravity'']) ''StaticMeshActor''
       (Some ''Cube'') (Some ''Box1'') None None None True []) =
   textResult (Actor_spawned (JStr ''/Game/Map.Actor_1'')
     [Spawned (JStr ''/Script/Engine.StaticMeshActor'') (JStr ''/Game/Map.Actor_1''),
      Warning Mesh 404, Set_mobility, Enabled_physics, Warning Gravity 404, Set_label ''Box1''])"
  by (simp add: ue5_spawn_actor_def primary_call_def mesh_step_def physics_steps_def label_step_def
      rotation_step_def scale_step_def configure_def rcCall_def rcFetch_def io_bind_def io_return_def
      try_catch_def Let_def flaky_host_def called_function_def call_body_def Response_ok_def
      resolve_def member_of_def ACTOR_CLASSES_def ENGINE_MESHES_def template_def rendered_def io_of_def)

section \<open>Properties of the command registry\<close>

lemma one_call_trace:
  assumes "\<And>res. \<exists>r. k res = io_return r"
  shows "snd (try_catch (io_bind (rcCall e obj fn ps) k) tr) = tr @ [call_request e obj fn ps]"
proof (cases "rcCall e obj fn ps tr")
  case (Pair r tr')
  with rcCall_trace [of e obj fn ps tr] have t: "tr' = tr @ [call_request e obj fn ps]" by simp
  show ?thesis
  proof (cases r)
    case (Inl err)
    with Pair t show ?thesis by (simp add: try_catch_def io_bind_def)
  next
    case (Inr res)
    from assms obtain v where "k res = io_return v" by blast
    with Pair t Inr show ?thesis by (simp add: try_catch_def io_bind_def io_return_def)
  qed
qed

lemma member_of_own: "map_of tbl k = Some v \<Longrightarrow> member_of tbl k = Own v"
  by (simp add: member_of_def)

lemma command_parameters_all:
  "list_all (\<lambda>c. case parameters c of None \<Rightarrow> True | Some p \<Rightarrow> truthy p) (map snd EDITOR_COMMANDS)"
  by (simp add: EDITOR_COMMANDS_def)

lemma command_request:
  assumes "map_of EDITOR_COMMANDS cmd_name = Some cmd"
  shows "call_request e (Some (JStr (objectPath cmd))) (Some (JStr (functionName cmd))) (parameters cmd) =
           \<lparr>url = baseUrl e @ ''/remote/object/call'', verb = ''PUT'',
            content = Some (JObj [(''objectPath'', JStr (objectPath cmd)),
                                  (''functionName'', JStr (functionName cmd)),
                                  (''parameters'', (case parameters cmd of Some p \<Rightarrow> p | None \<Rightarrow> JObj [])),
                                  (''generateTransaction'', JBool True)])\<rparr>"
proof -
  from assms have "(cmd_name, cmd) \<in> set EDITOR_COMMANDS" by (rule map_of_SomeD)
  then have "cmd \<in> set (map snd EDITOR_COMMANDS)" by force
  with command_parameters_all
  have "case parameters cmd of None \<Rightarrow> True | Some p \<Rightarrow> truthy p"
    unfolding list_all_iff by blast
  then show ?thesis
    by (simp add: call_request_def call_body_def js_or_def split: option.splits)
qed

text \<open>
  C8. For every invocation of the registry tool: a name that is not in the command
  table is rejected with no request issued. The tool's input schema (the enum of the
  table's keys) rejects it before the handler runs, and the handler's own guard
  \<open>if (!cmd)\<close> rejects every name that finds nothing under it, which is every name
  outside the table but the names inherited from \<open>Object.prototype\<close>. A name in the
  table issues exactly one request: a PUT to \<open>/remote/object/call\<close> whose body holds
  that command's stored object path, function name and parameters (\<open>{}\<close> when it
  stores none) and \<open>generateTransaction: true\<close>; when that call is answered 2xx the
  result echoes the command's stored description.
\<close>

theorem editor_command_registry:
  "(cmd_name \<notin> set (map fst EDITOR_COMMANDS) \<longrightarrow>
      ue5_editor_command e cmd_name tr = (errorResult Invalid_arguments, tr))
   \<and> (map_of EDITOR_COMMANDS cmd_name = None \<and> cmd_name \<notin> set Object_prototype_keys \<longrightarrow>
      editor_command_handler e cmd_name tr = (errorResult (Unknown_command cmd_name), tr))
   \<and> (map_of EDITOR_COMMANDS cmd_name = Some cmd \<longrightarrow>
      snd (ue5_editor_command e cmd_name tr) =
        tr @ [\<lparr>url = baseUrl e @ ''/remote/object/call'', verb = ''PUT'',
               content = Some (JObj [(''objectPath'', JStr (objectPath cmd)),
                                     (''functionName'', JStr (functionName cmd)),
                                     (''parameters'',
                                        (case parameters cmd of Some p \<Rightarrow> p | None \<Rightarrow> JObj [])),
                                     (''generateTransaction'', JBool True)])\<rparr>]
      \<and> (\<forall>st tx.
            fetch e tr
              \<lparr>url = baseUrl e @ ''/remote/object/call'', verb = ''PUT'',
               content = Some (JObj [(''objectPath'', JStr (objectPath cmd)),
                                     (''functionName'', JStr (functionName cmd)),
                                     (''parameters'',
                                        (case parameters cmd of Some p \<Rightarrow> p | None \<Rightarrow> JObj [])),
                                     (''generateTransaction'', JBool True)])\<rparr>
              = Http_response st tx \<and> 200 \<le> st \<and> st < 300 \<longrightarrow>
            fst (ue5_editor_command e cmd_name tr) = textResult (Executed (Some (description cmd)))))"
proof (intro conjI impI allI)
  assume "cmd_name \<notin> set (map fst EDITOR_COMMANDS)"
  then show "ue5_editor_command e cmd_name tr = (errorResult Invalid_arguments, tr)"
    by (simp add: ue5_editor_command_def registerTool_def command_schema_def)
next
  assume "map_of EDITOR_COMMANDS cmd_name = None \<and> cmd_name \<notin> set Object_prototype_keys"
  then have "member_of EDITOR_COMMANDS cmd_name = Absent"
    by (simp add: member_of_def)
  then show "editor_command_handler e cmd_name tr = (errorResult (Unknown_command cmd_name), tr)"
    by (simp add: editor_command_handler_def try_catch_def io_return_def)
next
  assume m: "map_of EDITOR_COMMANDS cmd_name = Some cmd"
  let ?req = "call_request e (Some (JStr (objectPath cmd))) (Some (JStr (functionName cmd)))
                (parameters cmd)"
  note req = command_request [OF m, of e]
  from m have k: "command_schema cmd_name"
    using map_of_eq_None_iff [of EDITOR_COMMANDS cmd_name] by (simp add: command_schema_def)
  have h: "ue5_editor_command e cmd_name tr =
             try_catch (io_bind (rcCall e (Some (JStr (objectPath cmd))) (Some (JStr (functionName cmd)))
                                   (parameters cmd))
               (\<lambda>res. if \<not> ok res
                      then io_return (errorResult (Http_failed ''Command'' (status res) (data res)))
                      else io_return (textResult (Executed (Some (description cmd)))))) tr"
    using k member_of_own [OF m]
    by (simp add: ue5_editor_command_def registerTool_def editor_command_handler_def)
  have "snd (ue5_editor_command e cmd_name tr) = tr @ [?req]"
    unfolding h by (rule one_call_trace) auto
  then show "snd (ue5_editor_command e cmd_name tr) =
        tr @ [\<lparr>url = baseUrl e @ ''/remote/object/call'', verb = ''PUT'',
               content = Some (JObj [(''objectPath'', JStr (objectPath cmd)),
                                     (''functionName'', JStr (functionName cmd)),
                                     (''parameters'',
                                        (case parameters cmd of Some p \<Rightarrow> p | None \<Rightarrow> JObj [])),
                                     (''generateTransaction'', JBool True)])\<rparr>]"
    unfolding req .
  fix st tx
  assume "fetch e tr
              \<lparr>url = baseUrl e @ ''/remote/object/call'', verb = ''PUT'',
               content = Some (JObj [(''objectPath'', JStr (objectPath cmd)),
                                     (''functionName'', JStr (functionName cmd)),
                                     (''parameters'',
                                        (case parameters cmd of Some p \<Rightarrow> p | None \<Rightarrow> JObj [])),
                                     (''generateTransaction'', JBool True)])\<rparr>
              = Http_response st tx \<and> 200 \<le> st \<and> st < 300"
  then have "fetch e tr ?req = Http_response st tx" and "Response_ok st"
    unfolding req by (simp_all add: Response_ok_def)
  then show "fst (ue5_editor_command e cmd_name tr) = textResult (Executed (Some (description cmd)))"
    unfolding h
    by (simp add: rcCall_response try_catch_def io_bind_def io_return_def)
qed

theorem editor_command_registry_witness:
  "ue5_editor_command (fixed_host 200 (Some JNull)) ''fly'' [] = (errorResult Invalid_arguments, [])
   \<and> editor_command_handler (fixed_host 200 (Some JNull)) ''fly'' [] =
       (errorResult (Unknown_command ''fly''), [])
   \<and> ue5_editor_command (fixed_host 200 (Some JNull)) ''play'' [] =
       (textResult (Executed (Some ''Start Play In Editor (PIE)'')),
        [\<lparr>url = ''http://localhost:30010/remote/object/call'', verb = ''PUT'',
          content = Some (JObj [(''objectPath'', JStr ''/Script/UnrealEd.Default__UnrealEditorSubsystem''),
                                (''functionName'', JStr ''StartPIE''),
                                (''parameters'', JObj [(''bSimulateInEditor'', JBool False)]),
                                (''generateTransaction'', JBool True)])\<rparr>])"
proof -
  let ?e = "fixed_host 200 (Some JNull)"
  let ?play = "\<lparr>objectPath = UnrealEditorSubsystem, functionName = ''StartPIE'',
          parameters = Some (JObj [(''bSimulateInEditor'', JBool False)]),
          description = ''Start Play In Editor (PIE)''\<rparr>"
  let ?req = "\<lparr>url = baseUrl ?e @ ''/remote/object/call'', verb = ''PUT'',
               content = Some (JObj [(''objectPath'', JStr (objectPath ?play)),
                                     (''functionName'', JStr (functionName ?play)),
                                     (''parameters'',
                                        (case parameters ?play of Some p \<Rightarrow> p | None \<Rightarrow> JObj [])),
                                     (''generateTransaction'', JBool True)])\<rparr>"
  have a: "''fly'' \<notin> set (map fst EDITOR_COMMANDS)"
    by (simp add: EDITOR_COMMANDS_def)
  have b: "map_of EDITOR_COMMANDS ''fly'' = None \<and> ''fly'' \<notin> set Object_prototype_keys"
    by (simp add: EDITOR_COMMANDS_def Object_prototype_keys_def)
  have c: "map_of EDITOR_COMMANDS ''play'' = Some ?play"
    by (simp add: EDITOR_COMMANDS_def)
  have d: "fetch ?e [] ?req = Http_response 200 ''body'' \<and> (200::int) \<le> 200 \<and> (200::int) < 300"
    by (simp add: fixed_host_def)
  note fly = editor_command_registry [of "''fly''" ?e "[]" ?play]
  note play = editor_command_registry [of "''play''" ?e "[]" ?play]
  have 1: "ue5_editor_command ?e ''fly'' [] = (errorResult Invalid_arguments, [])"
    using fly [THEN conjunct1, THEN mp, OF a] .
  have 2: "editor_command_handler ?e ''fly'' [] = (errorResult (Unknown_command ''fly''), [])"
    using fly [THEN conjunct2, THEN conjunct1, THEN mp, OF b] .
  note 5 = play [THEN conjunct2, THEN conjunct2, THEN mp, OF c]
  have 3: "snd (ue5_editor_command ?e ''play'' []) = [] @ [?req]"
    using 5 [THEN conjunct1] .
  have 4: "fst (ue5_editor_command ?e ''play'' []) = textResult (Executed (Some (description ?play)))"
    using 5 [THEN conjunct2, THEN spec, THEN spec, THEN mp, OF d] .
  from 3 4 have "ue5_editor_command ?e ''play'' [] =
       (textResult (Executed (Some ''Start Play In Editor (PIE)'')),
        [\<lparr>url = ''http://localhost:30010/remote/object/call'', verb = ''PUT'',
          content = Some (JObj [(''objectPath'', JStr ''/Script/UnrealEd.Default__UnrealEditorSubsystem''),
                                (''functionName'', JStr ''StartPIE''),
                                (''parameters'', JObj [(''bSimulateInEditor'', JBool False)]),
                                (''generateTransaction'', JBool True)])\<rparr>])"
    by (cases "ue5_editor_command ?e ''play'' []") (simp add: fixed_host_def UnrealEditorSubsystem_def)
  with 1 2 show ?thesis by simp
qed

text \<open>
  The handler's guard alone does not stop a name that \<open>Object.prototype\<close> supplies;
  the schema does, so no invocation of the tool reaches this.
\<close>

lemma handler_inherited_name:
  "editor_command_handler (fixed_host 200 (Some JNull)) ''constructor'' [] =
     (textResult (Executed None),
      [\<lparr>url = ''http://localhost:30010/remote/object/call'', verb = ''PUT'',
        content = Some (JObj [(''parameters'', JObj []), (''generateTransaction'', JBool True)])\<rparr>])"
  by (simp add: editor_command_handler_def member_of_def EDITOR_COMMANDS_def Object_prototype_keys_def
      try_catch_def io_bind_def io_return_def rcCall_def rcFetch_def Let_def fixed_host_def
      Response_ok_def call_body_def js_or_def)

section \<open>Properties of the batch translator\<close>

lemma rcFetch_batch:
  "rcFetch e ''/remote/batch'' ''PUT'' (Some (batch_body ops)) tr =
     ((case fetch e tr (batch_request e ops) of
         Http_response st tx \<Rightarrow>
           Inr \<lparr>ok = Response_ok st, status = st,
                data = (case JSON_parse e tx of Some v \<Rightarrow> v | None \<Rightarrow> JStr tx)\<rparr>
       | Abort_error \<Rightarrow> Inl (Timed_out (baseUrl e @ ''/remote/batch''))
       | Fetch_error msg \<Rightarrow> Inl (Connect_failed (baseUrl e @ ''/remote/batch'') msg)),
      tr @ [batch_request e ops])"
  by (simp add: rcFetch_def batch_request_def batch_body_def Let_def)

lemma batch_answered:
  assumes "fetch e tr (batch_request e ops) = Http_response st tx"
  shows "ue5_batch e ops tr =
           (if Response_ok st then
              (case batch_loop e (responses_of (case JSON_parse e tx of Some v \<Rightarrow> v | None \<Rightarrow> JStr tx)) ops 0 of
                 Inl err \<Rightarrow> errorResult (Caught err)
               | Inr vs \<Rightarrow> textResult (Batch_results vs))
            else errorResult (Http_failed ''Batch request'' st
                                (case JSON_parse e tx of Some v \<Rightarrow> v | None \<Rightarrow> JStr tx)),
            tr @ [batch_request e ops])"
  using assms
  by (simp add: ue5_batch_def try_catch_def io_bind_def io_return_def io_of_def rcFetch_batch
      split: sum.splits)

lemma find_RequestId_no_null:
  "JNull \<notin> set rs \<Longrightarrow>
   find_RequestId rs i = Inr (find (\<lambda>r. js_get r ''RequestId'' = Some (JNum (of_nat i))) rs)"
  by (induction rs) auto

lemma has_property_truthy: "js_get r k = Some v \<Longrightarrow> truthy r"
  by (cases r) simp_all

lemma resp_for_entries:
  assumes "JNull \<notin> set (case responses of JArr rs \<Rightarrow> rs | _ \<Rightarrow> [])"
  shows "resp_for responses i =
           Inr (case find (\<lambda>r. js_get r ''RequestId'' = Some (JNum (of_nat i)))
                        (case responses of JArr rs \<Rightarrow> rs | _ \<Rightarrow> []) of
                  Some r \<Rightarrow> Some r
                | None \<Rightarrow> if i < length (case responses of JArr rs \<Rightarrow> rs | _ \<Rightarrow> [])
                          then Some ((case responses of JArr rs \<Rightarrow> rs | _ \<Rightarrow> []) ! i) else None)"
proof (cases responses)
  case (JArr rs)
  with assms have n: "JNull \<notin> set rs" by simp
  show ?thesis
  proof (cases "find (\<lambda>r. js_get r ''RequestId'' = Some (JNum (of_nat i))) rs")
    case None
    with JArr n show ?thesis
      by (simp add: resp_for_def find_RequestId_no_null js_or_def element_def)
  next
    case (Some r)
    then have "js_get r ''RequestId'' = Some (JNum (of_nat i))"
      by (auto simp add: find_Some_iff)
    then have "truthy r" by (rule has_property_truthy)
    with JArr n Some show ?thesis
      by (simp add: resp_for_def find_RequestId_no_null js_or_def)
  qed
qed (simp_all add: resp_for_def)

lemma resp_for_matching:
  assumes "JNull \<notin> set (entries_of d)"
  shows "resp_for (responses_of d) i = Inr (matching_entry (entries_of d) i)"
  using resp_for_entries [of "responses_of d" i] assms
  by (simp add: entries_of_def matching_entry_def)

lemma matching_entry_member: "matching_entry rs i = Some r \<Longrightarrow> r \<in> set rs"
  by (auto simp add: matching_entry_def find_Some_iff split: option.splits if_splits)

lemma readable_status:
  assumes "list_all readable_entry rs"
  shows "\<not> unconvertible (status_of (matching_entry rs i))"
proof (cases "matching_entry rs i")
  case None
  then show ?thesis by (simp add: status_of_def js_or_def)
next
  case (Some r)
  then have "r \<in> set rs" by (rule matching_entry_member)
  with assms have "readable_entry r" unfolding list_all_iff by blast
  with Some show ?thesis by (simp add: readable_entry_def)
qed

lemma readable_no_null: "list_all readable_entry rs \<Longrightarrow> JNull \<notin> set rs"
  unfolding list_all_iff by (auto simp add: readable_entry_def)

lemma batch_loop_total:
  assumes "\<And>i. resp_for responses i = Inr (g i)"
    and "\<And>i. \<not> unconvertible (status_of (g i))"
  shows "batch_loop e responses ops k =
           Inr (map (\<lambda>(i, op). \<lparr>line_number = i + 1,
                                 icon_ok = (case number_of e (status_of (g i)) of
                                              Some n \<Rightarrow> 200 \<le> n \<and> n < 300 | None \<Rightarrow> False),
                                 described = op, shown_status = status_of (g i)\<rparr>)
                  (enumerate k ops))"
  by (induction ops arbitrary: k) (simp_all add: assms Let_def status_2xx_def template_def)

lemma batch_report:
  assumes "fetch e tr (batch_request e ops) = Http_response st tx"
    and "200 \<le> st" and "st < 300"
    and "entries_of (case JSON_parse e tx of Some v \<Rightarrow> v | None \<Rightarrow> JStr tx) = rs"
    and "list_all readable_entry rs"
  shows "ue5_batch e ops tr =
           (textResult (Batch_results
              (map (\<lambda>(i, op). \<lparr>line_number = i + 1,
                               icon_ok = (case number_of e (status_of (matching_entry rs i)) of
                                            Some n \<Rightarrow> 200 \<le> n \<and> n < 300 | None \<Rightarrow> False),
                               described = op,
                               shown_status = status_of (matching_entry rs i)\<rparr>)
                 (enumerate 0 ops))),
            tr @ [batch_request e ops])"
proof -
  let ?d = "case JSON_parse e tx of Some v \<Rightarrow> v | None \<Rightarrow> JStr tx"
  have "\<And>i. resp_for (responses_of ?d) i = Inr (matching_entry rs i)"
    using resp_for_matching [of ?d] assms(4) readable_no_null [OF assms(5)] by simp
  moreover have "\<And>i. \<not> unconvertible (status_of (matching_entry rs i))"
    by (rule readable_status [OF assms(5)])
  ultimately have "batch_loop e (responses_of ?d) ops 0 =
           Inr (map (\<lambda>(i, op). \<lparr>line_number = i + 1,
                               icon_ok = (case number_of e (status_of (matching_entry rs i)) of
                                            Some n \<Rightarrow> 200 \<le> n \<and> n < 300 | None \<Rightarrow> False),
                               described = op,
                               shown_status = status_of (matching_entry rs i)\<rparr>)
                 (enumerate 0 ops))"
    by (rule batch_loop_total)
  then show ?thesis
    using assms(2,3) by (simp add: batch_answered [OF assms(1)] Response_ok_def)
qed



text \<open>
  C10, as amended. For every batch of k operations whose round trip completes with a
  2xx status and whose response list holds only entries that are not \<open>null\<close> and whose
  status has a primitive (in particular such a list truncated to fewer than k
  entries), \<open>ue5_batch\<close> still reports exactly k verdicts, and every operation with
  neither an entry carrying its \<open>RequestId\<close> nor an entry at its position is reported
  as failed, with the status "?". The conversion of the string "?" to a number is
  \<open>NaN\<close>.
\<close>

theorem batch_missing_entry_fails:
  assumes "fetch e tr (batch_request e ops) = Http_response st tx"
    and "200 \<le> st" and "st < 300"
    and "entries_of (case JSON_parse e tx of Some v \<Rightarrow> v | None \<Rightarrow> JStr tx) = rs"
    and "list_all readable_entry rs"
    and "ToNumber e (JStr ''?'') = None"
  shows "\<exists>vs. fst (ue5_batch e ops tr) = textResult (Batch_results vs)
           \<and> length vs = length ops
           \<and> (\<forall>i<length ops.
                 length rs \<le> i \<and> find (\<lambda>r. js_get r ''RequestId'' = Some (JNum (of_nat i))) rs = None
                 \<longrightarrow> \<not> icon_ok (vs ! i) \<and> shown_status (vs ! i) = JStr ''?'')"
proof -
  have "\<And>i. length rs \<le> i \<Longrightarrow>
          find (\<lambda>r. js_get r ''RequestId'' = Some (JNum (of_nat i))) rs = None \<Longrightarrow>
          status_of (matching_entry rs i) = JStr ''?''"
    by (simp add: matching_entry_def status_of_def js_or_def)
  then show ?thesis
    using batch_report [OF assms(1-5)] assms(6)
    by (simp add: nth_enumerate_eq number_of_def)
qed

text \<open>
  C7, as amended. For every batch of k operations whose transport call throws,
  \<open>ue5_batch\<close> returns one error result and no verdict for any single operation,
  having attempted the one batch request. The error result carries the thrown error's
  message: the timeout message with the batch URL when the timer aborted the call, the
  connection-failure message with the batch URL and the cause when the connection
  failed.
\<close>

theorem batch_thrown_single_error:
  "(fetch e tr (batch_request e ops) = Abort_error \<longrightarrow>
      ue5_batch e ops tr =
        (errorResult (Caught (Timed_out (baseUrl e @ ''/remote/batch''))), tr @ [batch_request e ops]))
   \<and> (fetch e tr (batch_request e ops) = Fetch_error msg \<longrightarrow>
      ue5_batch e ops tr =
        (errorResult (Caught (Connect_failed (baseUrl e @ ''/remote/batch'') msg)),
         tr @ [batch_request e ops]))"
  by (simp add: ue5_batch_def try_catch_def io_bind_def rcFetch_batch)


text \<open>Scenario B and the other batch scenarios.\<close>

lemma fixed_host_entries:
  "entries_of (case JSON_parse (fixed_host st (Some (JObj [(''Responses'', JArr rs)]))) tx of
                 Some v \<Rightarrow> v | None \<Rightarrow> JStr tx) = rs"
  by (simp add: fixed_host_def entries_of_def responses_of_def js_or_def)

lemma response_entry_readable: "readable_entry (response_entry i st)"
  by (simp add: readable_entry_def response_entry_def status_of_def js_or_def)



theorem batch_missing_entry_fails_witness:
  "\<exists>vs. fst (ue5_batch
          (fixed_host 200 (Some (JObj [(''Responses'', JArr [response_entry 0 200])])))
          [call_op ''/Game/Map.Cube_1'' ''SetActorLabel'', call_op ''/Game/Map.Cube_2'' ''SetActorLabel'',
           call_op ''/Game/Map.Cube_3'' ''SetActorLabel''] []) = textResult (Batch_results vs)
      \<and> length vs = 3
      \<and> \<not> icon_ok (vs ! 1) \<and> shown_status (vs ! 1) = JStr ''?''
      \<and> \<not> icon_ok (vs ! 2) \<and> shown_status (vs ! 2) = JStr ''?''"
proof -
  let ?rs = "[response_entry 0 200]"
  let ?e = "fixed_host 200 (Some (JObj [(''Responses'', JArr ?rs)]))"
  let ?ops = "[call_op ''/Game/Map.Cube_1'' ''SetActorLabel'', call_op ''/Game/Map.Cube_2'' ''SetActorLabel'',
               call_op ''/Game/Map.Cube_3'' ''SetActorLabel'']"
  have h1: "fetch ?e [] (batch_request ?e ?ops) = Http_response 200 ''body''"
    by (simp add: fixed_host_def)
  have h5: "list_all readable_entry ?rs" by (simp add: response_entry_readable)
  have h6: "ToNumber ?e (JStr ''?'') = None" by (simp add: fixed_host_def)
  have f: "find (\<lambda>r. js_get r ''RequestId'' = Some (JNum (of_nat 1))) ?rs = None"
    "find (\<lambda>r. js_get r ''RequestId'' = Some (JNum (of_nat 2))) ?rs = None"
    by (simp_all add: response_entry_def)
  from batch_missing_entry_fails [OF h1 _ _ fixed_host_entries h5 h6]
  obtain vs where
    v: "fst (ue5_batch ?e ?ops []) = textResult (Batch_results vs)"
       "length vs = length ?ops"
       "\<forall>i<length ?ops.
           length ?rs \<le> i \<and> find (\<lambda>r. js_get r ''RequestId'' = Some (JNum (of_nat i))) ?rs = None
           \<longrightarrow> \<not> icon_ok (vs ! i) \<and> shown_status (vs ! i) = JStr ''?''"
    by auto
  from v(3) [rule_format, of 1] v(3) [rule_format, of 2] f
  have "\<not> icon_ok (vs ! 1) \<and> shown_status (vs ! 1) = JStr ''?''"
    "\<not> icon_ok (vs ! 2) \<and> shown_status (vs ! 2) = JStr ''?''"
    by simp_all
  with v(1,2) show ?thesis by auto
qed

text \<open>
  C10 as first stated fails where the round trip completes with a status outside 2xx:
  the host answers 404 with a list of one entry for three operations, and the handler
  returns one error result and no verdict.
\<close>

theorem batch_truncated_http_failure_counterexample:
  "ue5_batch
     (fixed_host 404 (Some (JObj [(''Responses'', JArr [response_entry 0 200])])))
     [call_op ''/Game/Map.Cube_1'' ''SetActorLabel'', call_op ''/Game/Map.Cube_2'' ''SetActorLabel'',
      call_op ''/Game/Map.Cube_3'' ''SetActorLabel''] [] =
   (errorResult (Http_failed ''Batch request'' 404 (JObj [(''Responses'', JArr [response_entry 0 200])])),
    [batch_request
       (fixed_host 404 (Some (JObj [(''Responses'', JArr [response_entry 0 200])])))
       [call_op ''/Game/Map.Cube_1'' ''SetActorLabel'', call_op ''/Game/Map.Cube_2'' ''SetActorLabel'',
        call_op ''/Game/Map.Cube_3'' ''SetActorLabel'']])"
proof -
  let ?e = "fixed_host 404 (Some (JObj [(''Responses'', JArr [response_entry 0 200])]))"
  let ?ops = "[call_op ''/Game/Map.Cube_1'' ''SetActorLabel'', call_op ''/Game/Map.Cube_2'' ''SetActorLabel'',
               call_op ''/Game/Map.Cube_3'' ''SetActorLabel'']"
  have h1: "fetch ?e [] (batch_request ?e ?ops) = Http_response 404 ''body''"
    by (simp add: fixed_host_def)
  have p: "JSON_parse ?e ''body'' = Some (JObj [(''Responses'', JArr [response_entry 0 200])])"
    by (simp add: fixed_host_def)
  show ?thesis
    using batch_answered [OF h1] p by (simp add: Response_ok_def)
qed

theorem batch_thrown_single_error_witness:
  "ue5_batch refusing_host
     [call_op ''/Game/Map.Cube_1'' ''SetActorLabel'', call_op ''/Game/Map.Cube_2'' ''SetActorLabel''] [] =
   (errorResult (Caught (Connect_failed ''http://localhost:30010/remote/batch'' ''fetch failed'')),
    [batch_request refusing_host
       [call_op ''/Game/Map.Cube_1'' ''SetActorLabel'', call_op ''/Game/Map.Cube_2'' ''SetActorLabel'']])"
proof -
  let ?ops = "[call_op ''/Game/Map.Cube_1'' ''SetActorLabel'', call_op ''/Game/Map.Cube_2'' ''SetActorLabel'']"
  have h: "fetch refusing_host [] (batch_request refusing_host ?ops) = Fetch_error ''fetch failed''"
    by (simp add: refusing_host_def)
  have b: "baseUrl refusing_host = ''http://localhost:30010''"
    by (simp add: refusing_host_def)
  show ?thesis
    using batch_thrown_single_error [of refusing_host "[]" ?ops "''fetch failed''", THEN conjunct2,
        THEN mp, OF h] b
    by simp
qed

text \<open>
  C7 as first stated fails: with two operations and a host that never answers, the
  result is one error result (the timeout's message), not two failure verdicts.
\<close>

theorem batch_timeout_counterexample:
  "ue5_batch silent_host
     [call_op ''/Game/Map.Cube_1'' ''SetActorLabel'', call_op ''/Game/Map.Cube_2'' ''SetActorLabel''] [] =
   (errorResult (Caught (Timed_out ''http://localhost:30010/remote/batch'')),
    [batch_request silent_host
       [call_op ''/Game/Map.Cube_1'' ''SetActorLabel'', call_op ''/Game/Map.Cube_2'' ''SetActorLabel'']])"
proof -
  let ?ops = "[call_op ''/Game/Map.Cube_1'' ''SetActorLabel'', call_op ''/Game/Map.Cube_2'' ''SetActorLabel'']"
  have h: "fetch silent_host [] (batch_request silent_host ?ops) = Abort_error"
    by (simp add: silent_host_def)
  have b: "baseUrl silent_host = ''http://localhost:30010''"
    by (simp add: silent_host_def)
  show ?thesis
    using h b by (simp add: ue5_batch_def try_catch_def io_bind_def rcFetch_batch)
qed

text \<open>
  The two throws inside the loop. A \<open>null\<close> entry makes the search for a
  \<open>RequestId\<close> throw, and a status that has no primitive makes the comparison
  \<open>status >= 200\<close> throw; the handler's catch turns either into one error result.
\<close>

lemma batch_null_entry_throws:
  "ue5_batch (fixed_host 200 (Some (JObj [(''Responses'', JArr [JNull])])))
     [call_op ''/Game/Map.Cube_1'' ''SetActorLabel'', call_op ''/Game/Map.Cube_2'' ''SetActorLabel''] [] =
   (errorResult (Caught (Null_property ''RequestId'')),
    [batch_request (fixed_host 200 (Some (JObj [(''Responses'', JArr [JNull])])))
       [call_op ''/Game/Map.Cube_1'' ''SetActorLabel'', call_op ''/Game/Map.Cube_2'' ''SetActorLabel'']])"
proof -
  let ?e = "fixed_host 200 (Some (JObj [(''Responses'', JArr [JNull])]))"
  let ?ops = "[call_op ''/Game/Map.Cube_1'' ''SetActorLabel'', call_op ''/Game/Map.Cube_2'' ''SetActorLabel'']"
  have h1: "fetch ?e [] (batch_request ?e ?ops) = Http_response 200 ''body''"
    by (simp add: fixed_host_def)
  have p: "JSON_parse ?e ''body'' = Some (JObj [(''Responses'', JArr [JNull])])"
    by (simp add: fixed_host_def)
  show ?thesis
    by (simp add: batch_answered [OF h1] Response_ok_def p responses_of_def js_or_def resp_for_def)
qed

lemma batch_unconvertible_status_throws:
  "ue5_batch
     (fixed_host 200 (Some (JObj [(''Responses'',
        JArr [JObj [(''RequestId'', JNum 0), (''StatusCode'', JObj [(''toString'', JNum 1)])]])])))
     [call_op ''/Game/Map.Cube_1'' ''SetActorLabel''] [] =
   (errorResult (Caught Not_primitive),
    [batch_request
       (fixed_host 200 (Some (JObj [(''Responses'',
          JArr [JObj [(''RequestId'', JNum 0), (''StatusCode'', JObj [(''toString'', JNum 1)])]])])))
       [call_op ''/Game/Map.Cube_1'' ''SetActorLabel'']])"
proof -
  let ?e = "fixed_host 200 (Some (JObj [(''Responses'',
        JArr [JObj [(''RequestId'', JNum 0), (''StatusCode'', JObj [(''toString'', JNum 1)])]])]))"
  let ?ops = "[call_op ''/Game/Map.Cube_1'' ''SetActorLabel'']"
  have h1: "fetch ?e [] (batch_request ?e ?ops) = Http_response 200 ''body''"
    by (simp add: fixed_host_def)
  have p: "JSON_parse ?e ''body'' = Some (JObj [(''Responses'',
        JArr [JObj [(''RequestId'', JNum 0), (''StatusCode'', JObj [(''toString'', JNum 1)])]])])"
    by (simp add: fixed_host_def)
  show ?thesis
    by (simp add: batch_answered [OF h1] Response_ok_def p responses_of_def js_or_def resp_for_def
        status_of_def status_2xx_def)
qed

section \<open>Properties of the name resolver\<close>

text \<open>
  The resolver is a function of the table and the token alone. A token of the table
  resolves to its path, and a token that is neither in the table nor a name inherited
  from \<open>Object.prototype\<close> passes through unchanged.
\<close>

lemma resolve_known: "map_of tbl t = Some p \<Longrightarrow> p \<noteq> [] \<Longrightarrow> resolve tbl t = JStr p"
  by (simp add: resolve_def member_of_def)

lemma resolve_unknown:
  "map_of tbl t = None \<Longrightarrow> t \<notin> set Object_prototype_keys \<Longrightarrow> resolve tbl t = JStr t"
  by (simp add: resolve_def member_of_def)

lemma resolve_inherited:
  "map_of tbl t = None \<Longrightarrow> t \<in> set Object_prototype_keys \<Longrightarrow> resolve tbl t = JBuiltin t"
  by (simp add: resolve_def member_of_def)

text \<open>Resolving a resolved actor class path again yields that path.\<close>

lemma actor_paths_all:
  "list_all (\<lambda>p. p \<noteq> [] \<and> resolve ACTOR_CLASSES p = JStr p) (map snd ACTOR_CLASSES)"
  by (simp add: ACTOR_CLASSES_def resolve_def member_of_def Object_prototype_keys_def)

lemma actor_paths_resolved:
  assumes "(t, p) \<in> set ACTOR_CLASSES"
  shows "p \<noteq> [] \<and> resolve ACTOR_CLASSES p = JStr p"
proof -
  from assms have "p \<in> set (map snd ACTOR_CLASSES)" by force
  with actor_paths_all show ?thesis unfolding list_all_iff by blast
qed

lemma resolve_actor_idempotent:
  assumes "resolve ACTOR_CLASSES t = JStr p"
  shows "resolve ACTOR_CLASSES p = JStr p"
proof (cases "map_of ACTOR_CLASSES t")
  case None
  with assms show ?thesis
    by (auto simp add: resolve_def member_of_def split: if_splits)
next
  case (Some q)
  then have m: "(t, q) \<in> set ACTOR_CLASSES" by (rule map_of_SomeD)
  with Some assms have "p = q"
    using actor_paths_resolved [OF m] by (simp add: resolve_def member_of_def)
  with actor_paths_resolved [OF m] show ?thesis by simp
qed

text \<open>
  C6. The resolver is total and its result depends on the token alone, but a token that
  is not in the table does not always pass through unchanged: for a name that every
  object literal inherits (such as "constructor"), \<open>TABLE[token]\<close> is the inherited
  member, which is truthy, so \<open>TABLE[token] || token\<close> is that member and not the
  token.
\<close>

theorem resolve_inherited_name:
  "resolve ACTOR_CLASSES ''constructor'' = JBuiltin ''constructor''
   \<and> resolve ACTOR_CLASSES ''constructor'' \<noteq> JStr ''constructor''
   \<and> resolve ENGINE_MESHES ''toString'' = JBuiltin ''toString''"
  by (simp add: resolve_def member_of_def ACTOR_CLASSES_def ENGINE_MESHES_def Object_prototype_keys_def)

section \<open>Properties of the light composite\<close>

text \<open>
  C9. In \<open>ue5_spawn_light\<close> a failed configuration step does not appear as a warning.
  With the calls of \<open>SetIntensity\<close> and \<open>SetActorLabel\<close> answered 404, the report
  holds no entry for the intensity step and lists the label as set: the first failure
  is dropped, the second is reported as a success.
\<close>

theorem spawn_light_hides_failures:
  "fst (ue5_spawn_light (flaky_host [''SetIntensity'', ''SetActorLabel'']) ''PointLight'' None None
          (Some ''Key'') 5000 None None None None True []) =
   textResult (Light_spawned (JStr ''/Game/Map.Actor_1'')
     [Spawned_light ''PointLight'' (JStr ''/Game/Map.Actor_1''), Cast_shadows True, Light_label ''Key''])"
  by (simp add: ue5_spawn_light_def push_if_ok_def push_always_def light_spawn_params_def
      rcCall_def rcFetch_def io_bind_def io_return_def try_catch_def Let_def flaky_host_def
      called_function_def call_body_def Response_ok_def member_of_def LIGHT_CLASSES_def template_def
      rendered_def io_of_def EditorActorSubsystem_def XYZ_def)



end
